theory Spec2Isabelle
  imports Complex_Main
begin

section \<open>JavaScript values, exceptions and strings\<close>

text \<open>
  Receipts arrive as parsed JSON, so a receipt is a JavaScript value built by
  \<open>JSON.parse\<close> (or an object literal of the same shape): its objects have data
  properties only, none of them a function. Numbers are the finite doubles JSON can carry,
  read as rationals. A string is the list of its code units; the texts of the sources stay
  below 256, which is what \<open>char\<close> holds, but for one character of one label (see
  \<open>codeLabels\<close>).
\<close>

datatype jsval =
    JUndefined
  | JNull
  | JBool bool
  | JNum rat
  | JStr string
  | JArr "jsval list"
  | JObj "(string \<times> jsval) list"

text \<open>
  A thrown exception is a value. A \<open>TypeError\<close> of the engine is kept by its cause: a
  property read of \<open>undefined\<close> or \<open>null\<close>, a destructuring of one of them, a call of
  something that is not a function (named by the expression called), an iteration of a
  value that is not iterable, a conversion of an object that yields no primitive. The
  text an engine gives such an error is the engine's (\<open>typeErrorMessage\<close> below).
  \<open>Error\<close> is \<open>new Error(message)\<close>.
\<close>

datatype type_error =
    ReadOfNullish jsval string
  | DestructureOfNullish jsval string
  | NotAFunction string
  | NotIterable string
  | NoPrimitive

datatype exn = TypeError type_error | Error string

type_synonym 'a res = "exn + 'a"

definition bind_res :: "'a res \<Rightarrow> ('a \<Rightarrow> 'b res) \<Rightarrow> 'b res" where
  "bind_res r f = (case r of Inl e \<Rightarrow> Inl e | Inr v \<Rightarrow> f v)"

text \<open>Results computed left to right: the first one that throws decides.\<close>

fun sequence_res :: "'a res list \<Rightarrow> 'a list res" where
  "sequence_res [] = Inr []"
| "sequence_res (p # ps) =
     (case p of
        Inl e \<Rightarrow> Inl e
      | Inr x \<Rightarrow> (case sequence_res ps of Inl e \<Rightarrow> Inl e | Inr xs \<Rightarrow> Inr (x # xs)))"

text \<open>Whether an object has the own property \<open>k\<close>.\<close>

definition hasOwn :: "(string \<times> jsval) list \<Rightarrow> string \<Rightarrow> bool" where
  "hasOwn fs k = (map_of fs k \<noteq> None)"

text \<open>\<open>v.k\<close>, for the field names that the service and the formatter read, none of which
  is a property of \<open>Object.prototype\<close>, of a primitive or of an array: the read throws
  on \<open>undefined\<close> and \<open>null\<close>, and yields the own property of an object or
  \<open>undefined\<close>.\<close>

fun getProp :: "jsval \<Rightarrow> string \<Rightarrow> jsval res" where
  "getProp JUndefined k = Inl (TypeError (ReadOfNullish JUndefined k))"
| "getProp JNull k = Inl (TypeError (ReadOfNullish JNull k))"
| "getProp (JObj fs) k = (case map_of fs k of Some v \<Rightarrow> Inr v | None \<Rightarrow> Inr JUndefined)"
| "getProp v k = Inr JUndefined"

text \<open>\<open>const { k } = v\<close>: the same read, with the error of a destructuring.\<close>

definition destructure :: "jsval \<Rightarrow> string \<Rightarrow> jsval res" where
  "destructure v k =
     (if v = JUndefined \<or> v = JNull then Inl (TypeError (DestructureOfNullish v k))
      else getProp v k)"

fun truthy :: "jsval \<Rightarrow> bool" where
  "truthy JUndefined = False"
| "truthy JNull = False"
| "truthy (JBool b) = b"
| "truthy (JNum n) = (n \<noteq> 0)"
| "truthy (JStr s) = (s \<noteq> [])"
| "truthy (JArr xs) = True"
| "truthy (JObj fs) = True"

definition NL :: string where
  "NL = [CHR 0x0A]"

definition digit_char :: "nat \<Rightarrow> char" where
  "digit_char d = ''0123456789'' ! d"

fun string_of_nat :: "nat \<Rightarrow> string" where
  "string_of_nat n =
     (if n < 10 then [digit_char n]
      else string_of_nat (n div 10) @ [digit_char (n mod 10)])"

declare string_of_nat.simps [simp del]

definition string_of_int :: "int \<Rightarrow> string" where
  "string_of_int i = (if i < 0 then ''-'' @ string_of_nat (nat (- i)) else string_of_nat (nat i))"

text \<open>\<open>String.prototype.toLowerCase\<close> on code units below 256.\<close>

definition lower_char :: "char \<Rightarrow> char" where
  "lower_char c =
     (let n = (of_char c :: nat)
      in if (65 \<le> n \<and> n \<le> 90) \<or> (192 \<le> n \<and> n \<le> 222 \<and> n \<noteq> 215)
         then char_of (n + 32) else c)"

definition toLowerCase :: "string \<Rightarrow> string" where
  "toLowerCase s = map lower_char s"

fun join :: "string \<Rightarrow> string list \<Rightarrow> string" where
  "join sep [] = []"
| "join sep [s] = s"
| "join sep (s # t # ts) = s @ sep @ join sep (t # ts)"



text \<open>
  What the JavaScript engine and its locale supply: the text of a number
  (\<open>Number.prototype.toString\<close>) and of \<open>toFixed(0)\<close>, the number a string converts to
  (\<open>None\<close> is \<open>NaN\<close>), the \<open>Date\<close> methods the formatter calls on \<open>new Date(v)\<close> for a
  value \<open>v\<close> on which the constructor does not throw (a getter returns \<open>None\<close> where
  JavaScript returns \<open>NaN\<close>, on an invalid date), the text of the function \<open>Object\<close>, and
  the message of a \<open>TypeError\<close>.
\<close>

record platform =
  numToString :: "rat \<Rightarrow> string"
  toFixed0 :: "rat \<Rightarrow> string"
  toNumber :: "string \<Rightarrow> rat option"
  toLocaleDateString :: "jsval \<Rightarrow> string"
  toLocaleString :: "jsval \<Rightarrow> string"
  toLocaleTimeString :: "jsval \<Rightarrow> string"
  getFullYear :: "jsval \<Rightarrow> int option"
  getMonth :: "jsval \<Rightarrow> int option"
  getDate :: "jsval \<Rightarrow> int option"
  objectFunctionText :: string
  typeErrorMessage :: "type_error \<Rightarrow> string"

text \<open>\<open>error.message\<close>.\<close>

fun messageOf :: "platform \<Rightarrow> exn \<Rightarrow> string" where
  "messageOf pf (TypeError t) = typeErrorMessage pf t"
| "messageOf pf (Error m) = m"

text \<open>
  The abstract operation ToString, as applied by template literals, and ToPrimitive
  followed by ToString, as applied by \<open>+\<close> with a string: on the values of JSON the two
  agree. An object converts through \<open>toString\<close> and \<open>valueOf\<close>: with an own
  property \<open>toString\<close>, which cannot be a function, no method yields a primitive and the
  conversion throws; without it the inherited method answers \<open>[object Object]\<close>. An array
  converts through \<open>join\<close>, which converts its elements and takes \<open>undefined\<close> and
  \<open>null\<close> as empty.
\<close>

fun js_string_of :: "platform \<Rightarrow> jsval \<Rightarrow> string res" where
  "js_string_of pf JUndefined = Inr ''undefined''"
| "js_string_of pf JNull = Inr ''null''"
| "js_string_of pf (JBool b) = Inr (if b then ''true'' else ''false'')"
| "js_string_of pf (JNum n) = Inr (numToString pf n)"
| "js_string_of pf (JStr s) = Inr s"
| "js_string_of pf (JArr xs) =
     bind_res
       (sequence_res
          (map (\<lambda>x. if x = JUndefined \<or> x = JNull then Inr [] else js_string_of pf x) xs))
       (\<lambda>parts. Inr (join '','' parts))"
| "js_string_of pf (JObj fs) =
     (if hasOwn fs ''toString'' then Inl (TypeError NoPrimitive) else Inr ''[object Object]'')"

text \<open>\<open>value.toString()\<close>: a method call. It throws on \<open>undefined\<close> and \<open>null\<close>, and on
  an object whose own property \<open>toString\<close> hides the method; otherwise it is the
  conversion above.\<close>

definition toString_method :: "platform \<Rightarrow> jsval \<Rightarrow> string res" where
  "toString_method pf v =
     (case v of
        JUndefined \<Rightarrow> Inl (TypeError (ReadOfNullish JUndefined ''toString''))
      | JNull \<Rightarrow> Inl (TypeError (ReadOfNullish JNull ''toString''))
      | JObj fs \<Rightarrow>
          if hasOwn fs ''toString'' then Inl (TypeError (NotAFunction ''value.toString''))
          else Inr ''[object Object]''
      | _ \<Rightarrow> js_string_of pf v)"

text \<open>\<open>v > 0\<close>: ToPrimitive, which throws as above, then ToNumber.\<close>

definition gt_zero :: "platform \<Rightarrow> jsval \<Rightarrow> bool res" where
  "gt_zero pf v =
     (case v of
        JNum n \<Rightarrow> Inr (n > 0)
      | JBool b \<Rightarrow> Inr b
      | JUndefined \<Rightarrow> Inr False
      | JNull \<Rightarrow> Inr False
      | _ \<Rightarrow>
          bind_res (js_string_of pf v) (\<lambda>s.
            Inr (case toNumber pf s of Some n \<Rightarrow> n > 0 | None \<Rightarrow> False)))"

text \<open>\<open>for (const item of v)\<close>: arrays and strings are iterable, nothing else here is;
  \<open>what\<close> is the expression iterated.\<close>

definition iterate :: "string \<Rightarrow> jsval \<Rightarrow> jsval list res" where
  "iterate what v =
     (case v of
        JArr xs \<Rightarrow> Inr xs
      | JStr s \<Rightarrow> Inr (map (\<lambda>c. JStr [c]) s)
      | _ \<Rightarrow> Inl (TypeError (NotIterable what)))"

section \<open>The receipt formatter (lib/receiptFormatter.js)\<close>

datatype level = Info | Warn | Err

text \<open>What a call does besides returning: a line written through the logger, a query of
  the printers (\<open>printerManager.getAvailablePrinters\<close>), a submission to the spooler
  (\<open>printerManager.print(bytes, printerName)\<close>), and a pass of the queue that was
  started and not awaited: \<open>PassStarted\<close> carries the receipt, the printer name and the
  timestamp of the job that the pass has taken out of the queue and holds while its attempt
  is pending. Only the message of a log line is kept.\<close>

datatype event =
    Log level string
  | GetAvailablePrinters
  | Print string string
  | PassStarted jsval "string option" nat

text \<open>A result together with the lines logged on the way to it.\<close>

type_synonym 'a out = "'a res \<times> event list"

definition quiet :: "'a res \<Rightarrow> 'a out" where
  "quiet r = (r, [])"

definition lit :: "string \<Rightarrow> string out" where
  "lit s = (Inr s, [])"

text \<open>Concatenating pieces computed left to right: the first piece that throws decides,
  and what the later pieces would have logged is not logged.\<close>

fun concat_out :: "string out list \<Rightarrow> string out" where
  "concat_out [] = (Inr [], [])"
| "concat_out (p # ps) =
     (case p of
        (Inl e, l) \<Rightarrow> (Inl e, l)
      | (Inr s, l) \<Rightarrow>
          (case concat_out ps of
             (Inl e, l') \<Rightarrow> (Inl e, l @ l')
           | (Inr t, l') \<Rightarrow> (Inr (s @ t), l @ l')))"

text \<open>The same for pieces that do not log.\<close>

fun concat_res :: "string res list \<Rightarrow> string res" where
  "concat_res [] = Inr []"
| "concat_res (p # ps) =
     (case p of
        Inl e \<Rightarrow> Inl e
      | Inr s \<Rightarrow> (case concat_res ps of Inl e \<Rightarrow> Inl e | Inr t \<Rightarrow> Inr (s @ t)))"

text \<open>
  The formatter object after its constructor: the fields of \<open>config\<close> that are read (an
  unset or empty string is \<open>[]\<close>, both falsy), \<open>config.receiptTypes[type]\<close> as a pair of
  header and footer, and \<open>paperWidth\<close>.
\<close>

record formatter =
  restaurantName :: string
  address :: string
  phone :: string
  taxLabel :: string
  footerMessage :: string
  dateFormat :: string
  receiptTypes :: "string \<Rightarrow> (string \<times> string) option"
  paperWidth :: nat

definition ESC :: char where "ESC = CHR 0x1B"

definition INIT :: string where "INIT = [ESC, CHR ''@'']"
definition NORMAL_TEXT :: string where "NORMAL_TEXT = [ESC, CHR ''!'', CHR 0x00]"
definition SMALL_TEXT :: string where "SMALL_TEXT = [ESC, CHR ''!'', CHR 0x01]"
definition BOLD_ON :: string where "BOLD_ON = [ESC, CHR ''E'', CHR 0x01]"
definition BOLD_OFF :: string where "BOLD_OFF = [ESC, CHR ''E'', CHR 0x00]"
definition CENTER_ON :: string where "CENTER_ON = [ESC, CHR ''a'', CHR 0x01]"
definition CENTER_OFF :: string where "CENTER_OFF = [ESC, CHR ''a'', CHR 0x00]"
definition CUT_PAPER :: string where "CUT_PAPER = [CHR 0x1D, CHR ''V'', CHR ''A'', CHR ''0'']"
definition CHARSET_PC437 :: string where "CHARSET_PC437 = [ESC, CHR ''t'', CHR 0x00]"

text \<open>\<open>a || b\<close> on strings.\<close>

definition or_else :: "string \<Rightarrow> string \<Rightarrow> string" where
  "or_else a b = (if a \<noteq> [] then a else b)"

definition createSeparator :: "formatter \<Rightarrow> char \<Rightarrow> string" where
  "createSeparator fm c = replicate (paperWidth fm) c @ NL"

text \<open>\<open>formatLine(label, value)\<close>. Where \<open>value.toString()\<close> has returned, the
  \<open>+ value\<close> that follows converts to the same text.\<close>

definition formatLine :: "formatter \<Rightarrow> platform \<Rightarrow> string \<Rightarrow> jsval \<Rightarrow> string res" where
  "formatLine fm pf label v =
     bind_res (toString_method pf v) (\<lambda>vs.
       let totalLength = int (paperWidth fm);
           labelLength = int (length label);
           valueLength = int (length vs);
           spacesNeeded = totalLength - labelLength - valueLength
       in if spacesNeeded > 0
          then Inr (label @ replicate (nat spacesNeeded) CHR '' '' @ vs)
          else let maxLabelLength = totalLength - valueLength - 1;
                   truncatedLabel = take (nat maxLabelLength) label
               in Inr (truncatedLabel @ '' '' @ vs))"

definition formatCurrency :: "platform \<Rightarrow> jsval \<Rightarrow> string" where
  "formatCurrency pf amount =
     (case amount of JNum n \<Rightarrow> ''$'' @ toFixed0 pf n | _ \<Rightarrow> ''$0'')"

text \<open>A number concatenated to a string; \<open>None\<close> is \<open>NaN\<close>.\<close>

definition num_str :: "int option \<Rightarrow> string" where
  "num_str n = (case n of None \<Rightarrow> ''NaN'' | Some i \<Rightarrow> string_of_int i)"

definition padStart2 :: "string \<Rightarrow> string" where
  "padStart2 s = replicate (2 - length s) CHR ''0'' @ s"

text \<open>\<open>formatDate(dateString)\<close>. \<open>new Date(dateString)\<close> converts an object or an
  array to a primitive and throws where that conversion does; the \<open>catch\<close> then logs and
  returns \<open>dateString\<close> itself. The methods called on the date do not throw.\<close>

definition formatDate :: "formatter \<Rightarrow> platform \<Rightarrow> jsval \<Rightarrow> jsval \<times> event list" where
  "formatDate fm pf dateString =
     (case js_string_of pf dateString of
        Inl e \<Rightarrow> (dateString, [Log Err ''Date formatting error:''])
      | Inr primitive \<Rightarrow>
          (let format = or_else (dateFormat fm) ''default''
           in (JStr
                (if format = ''short'' then toLocaleDateString pf dateString
                 else if format = ''long'' then toLocaleString pf dateString
                 else if format = ''custom'' then
                   num_str (getFullYear pf dateString) @ ''-'' @
                   padStart2 (num_str (map_option (\<lambda>m. m + 1) (getMonth pf dateString))) @ ''-'' @
                   padStart2 (num_str (getDate pf dateString)) @ '' '' @
                   toLocaleTimeString pf dateString
                 else toLocaleString pf dateString), [])))"

definition methods :: "(string \<times> string) list" where
  "methods =
     [(''cash'', ''Efectivo''),
      (''card'', ''Tarjeta''),
      (''transfer'', ''Transferencia''),
      (''credit'', ''Cr'' @ [CHR 0xE9] @ ''dito''),
      (''debit'', ''D'' @ [CHR 0xE9] @ ''bito'')]"

text \<open>
  \<open>methods[method.toLowerCase()] || method\<close>, as the text that \<open>formatLine\<close> then
  prints. Only a string has \<open>toLowerCase\<close>. \<open>methods\<close> is an object literal, so the
  two lower-case names it inherits from \<open>Object.prototype\<close> are found as well:
  \<open>constructor\<close> is the function \<open>Object\<close> and \<open>__proto__\<close> is
  \<open>Object.prototype\<close> itself, both truthy and printed in place of the method.
\<close>

definition formatPaymentMethod :: "platform \<Rightarrow> jsval \<Rightarrow> string res" where
  "formatPaymentMethod pf method =
     (case method of
        JStr s \<Rightarrow>
          (case map_of methods (toLowerCase s) of
             Some m \<Rightarrow> Inr m
           | None \<Rightarrow>
               if toLowerCase s = ''constructor'' then Inr (objectFunctionText pf)
               else if toLowerCase s = ''__proto__'' then Inr ''[object Object]''
               else Inr s)
      | JUndefined \<Rightarrow> Inl (TypeError (ReadOfNullish JUndefined ''toLowerCase''))
      | JNull \<Rightarrow> Inl (TypeError (ReadOfNullish JNull ''toLowerCase''))
      | _ \<Rightarrow> Inl (TypeError (NotAFunction ''method.toLowerCase'')))"

definition getDefaultHeader :: "string \<Rightarrow> string" where
  "getDefaultHeader type =
     (case map_of
        [(''cash_transfer'', ''TRANSFER DE EFECTIVO''),
         (''shift_closure'', ''CIERRE DE TURNO''),
         (''shift_handoff'', ''ENTREGA DE TURNO''),
         (''cash_expense'', ''GASTO DE CAJA'')] type of
        Some h \<Rightarrow> h | None \<Rightarrow> [])"

definition getDefaultFooter :: "string \<Rightarrow> string" where
  "getDefaultFooter type =
     (case map_of
        [(''cash_transfer'', ''CONSERVAR PARA AUDITORIA''),
         (''shift_closure'', ''CIERRE COMPLETADO''),
         (''shift_handoff'', ''CONSERVAR PARA AUDITORIA''),
         (''cash_expense'', ''CONSERVAR PARA AUDITORIA'')] type of
        Some f \<Rightarrow> f | None \<Rightarrow> [])"

definition getReceiptTypeHeader :: "formatter \<Rightarrow> string \<Rightarrow> string" where
  "getReceiptTypeHeader fm type =
     (case receiptTypes fm type of
        Some (header, footer) \<Rightarrow> if header \<noteq> [] then header else getDefaultHeader type
      | None \<Rightarrow> getDefaultHeader type)"

definition getReceiptTypeFooter :: "formatter \<Rightarrow> string \<Rightarrow> string" where
  "getReceiptTypeFooter fm type =
     (case receiptTypes fm type of
        Some (header, footer) \<Rightarrow> if footer \<noteq> [] then footer else getDefaultFooter type
      | None \<Rightarrow> getDefaultFooter type)"

text \<open>\<open>output += this.formatLine(label, ...) + '\n'\<close> in its recurring shapes: the value is a
  field of the receipt, a field formatted as currency or as a date, or a field printed only
  when it is truthy.\<close>

definition lineNL :: "string res \<Rightarrow> string res" where
  "lineNL r = bind_res r (\<lambda>l. Inr (l @ NL))"

definition fieldLine :: "formatter \<Rightarrow> platform \<Rightarrow> string \<Rightarrow> jsval \<Rightarrow> string \<Rightarrow> string res" where
  "fieldLine fm pf label receipt k =
     bind_res (getProp receipt k) (\<lambda>v. lineNL (formatLine fm pf label v))"

definition currencyLine :: "formatter \<Rightarrow> platform \<Rightarrow> string \<Rightarrow> jsval \<Rightarrow> string \<Rightarrow> string res" where
  "currencyLine fm pf label receipt k =
     bind_res (getProp receipt k) (\<lambda>v. lineNL (formatLine fm pf label (JStr (formatCurrency pf v))))"

definition dateLine :: "formatter \<Rightarrow> platform \<Rightarrow> string \<Rightarrow> jsval \<Rightarrow> string \<Rightarrow> string out" where
  "dateLine fm pf label receipt k =
     (case getProp receipt k of
        Inl e \<Rightarrow> (Inl e, [])
      | Inr v \<Rightarrow>
          (case formatDate fm pf v of
             (date, logged) \<Rightarrow> (lineNL (formatLine fm pf label date), logged)))"

definition optionalLine :: "formatter \<Rightarrow> platform \<Rightarrow> string \<Rightarrow> jsval \<Rightarrow> string \<Rightarrow> string res" where
  "optionalLine fm pf label receipt k =
     bind_res (getProp receipt k) (\<lambda>v.
       if truthy v then lineNL (formatLine fm pf label v) else Inr [])"

text \<open>The body of the loop over \<open>receipt.items\<close>.\<close>

definition itemLine :: "formatter \<Rightarrow> platform \<Rightarrow> jsval \<Rightarrow> string res" where
  "itemLine fm pf item =
     bind_res (getProp item ''name'') (\<lambda>name.
     bind_res (getProp item ''quantity'') (\<lambda>quantity.
     bind_res (getProp item ''total'') (\<lambda>total.
     bind_res (js_string_of pf name) (\<lambda>nameText.
     bind_res (js_string_of pf quantity) (\<lambda>quantityText.
       let itemName = nameText @ '' x'' @ quantityText;
           itemTotal = formatCurrency pf total
       in lineNL (formatLine fm pf itemName (JStr itemTotal)))))))"

definition formatSalesReceipt :: "formatter \<Rightarrow> platform \<Rightarrow> jsval \<Rightarrow> string out" where
  "formatSalesReceipt fm pf receipt = concat_out
     [lit (BOLD_ON @ CENTER_ON),
      lit (createSeparator fm CHR ''=''),
      lit (or_else (restaurantName fm) ''RESTAURANT NAME'' @ NL),
      lit (if address fm \<noteq> [] then address fm @ NL else []),
      lit (if phone fm \<noteq> [] then phone fm @ NL else []),
      lit (createSeparator fm CHR ''=''),
      lit (BOLD_OFF @ CENTER_OFF),
      lit NORMAL_TEXT,
      quiet (fieldLine fm pf ''Pedido #:'' receipt ''orderNumber''),
      dateLine fm pf ''Fecha:'' receipt ''date'',
      quiet (optionalLine fm pf ''Cajero:'' receipt ''cashier''),
      lit (createSeparator fm CHR ''-''),
      quiet (bind_res (getProp receipt ''items'') (\<lambda>items.
        bind_res (iterate ''receipt.items'' items) (\<lambda>xs.
          concat_res (map (itemLine fm pf) xs)))),
      lit (createSeparator fm CHR ''-''),
      quiet (currencyLine fm pf ''Subtotal:'' receipt ''subtotal''),
      quiet (bind_res (getProp receipt ''tax'') (\<lambda>tax.
        if truthy tax
        then bind_res (gt_zero pf tax) (\<lambda>positive.
               if positive
               then lineNL (formatLine fm pf (or_else (taxLabel fm) ''IVA:'')
                              (JStr (formatCurrency pf tax)))
               else Inr [])
        else Inr [])),
      lit BOLD_ON,
      quiet (currencyLine fm pf ''TOTAL:'' receipt ''total''),
      lit BOLD_OFF,
      lit NORMAL_TEXT,
      lit (createSeparator fm CHR ''-''),
      quiet (bind_res (getProp receipt ''paymentMethod'') (\<lambda>pm.
        bind_res (formatPaymentMethod pf pm) (\<lambda>paymentMethod.
          lineNL (formatLine fm pf ''Pago:'' (JStr paymentMethod))))),
      quiet (bind_res (getProp receipt ''paymentMethod'') (\<lambda>pm.
        bind_res (getProp receipt ''tendered'') (\<lambda>tendered.
        bind_res (getProp receipt ''change'') (\<lambda>change.
          if pm = JStr ''cash'' \<and> truthy tendered
          then concat_res
            [lineNL (formatLine fm pf ''Recibido:'' (JStr (formatCurrency pf tendered))),
             if truthy change
             then lineNL (formatLine fm pf ''Devuelta:'' (JStr (formatCurrency pf change)))
             else Inr []]
          else Inr [])))),
      quiet (bind_res (getProp receipt ''paymentMethod'') (\<lambda>pm.
        bind_res (getProp receipt ''transferReference'') (\<lambda>ref.
          if pm = JStr ''transfer'' \<and> truthy ref
          then lineNL (formatLine fm pf ''Referencia:'' ref)
          else Inr []))),
      lit (createSeparator fm CHR ''=''),
      lit CENTER_ON,
      lit (if footerMessage fm \<noteq> [] then footerMessage fm @ NL
           else ''Disfruta tu bu'' @ [CHR 0xF1] @ ''uel'' @ [CHR 0xED] @ ''simo!'' @ NL),
      lit CENTER_OFF,
      lit (createSeparator fm CHR ''='')]"

text \<open>The header and the footer that the four other receipt types share, written out in
  each of their formatters in the source.\<close>

definition typeHeader :: "formatter \<Rightarrow> string \<Rightarrow> string" where
  "typeHeader fm type =
     BOLD_ON @ CENTER_ON @
     createSeparator fm CHR ''='' @
     or_else (restaurantName fm) (''BU'' @ [CHR 0xD1] @ ''UELISIMO'') @ NL @
     getReceiptTypeHeader fm type @ NL @
     createSeparator fm CHR ''='' @
     BOLD_OFF @ CENTER_OFF @
     NORMAL_TEXT"

definition typeFooter :: "formatter \<Rightarrow> string \<Rightarrow> string" where
  "typeFooter fm type =
     createSeparator fm CHR ''='' @
     CENTER_ON @
     getReceiptTypeFooter fm type @ NL @
     CENTER_OFF @
     createSeparator fm CHR ''=''"

definition formatCashTransferReceipt :: "formatter \<Rightarrow> platform \<Rightarrow> jsval \<Rightarrow> string out" where
  "formatCashTransferReceipt fm pf receipt = concat_out
     [lit (typeHeader fm ''cash_transfer''),
      quiet (fieldLine fm pf ''Transfer #:'' receipt ''transferId''),
      quiet (optionalLine fm pf ''Turno:'' receipt ''shiftInfo''),
      dateLine fm pf ''Fecha:'' receipt ''date'',
      lit (createSeparator fm CHR ''-''),
      quiet (fieldLine fm pf ''Enviado por:'' receipt ''senderName''),
      quiet (lineNL (formatLine fm pf ''Firma:'' (JStr ''____________________''))), lit NL,
      quiet (fieldLine fm pf ''Recibido por:'' receipt ''receiverName''),
      quiet (lineNL (formatLine fm pf ''Firma:'' (JStr ''____________________''))),
      lit (createSeparator fm CHR ''-''),
      lit (BOLD_ON @ CENTER_ON),
      lit (''Monto Transferido:'' @ NL),
      quiet (bind_res (getProp receipt ''amount'') (\<lambda>amount.
        Inr (formatCurrency pf amount @ NL))),
      lit (BOLD_OFF @ CENTER_OFF),
      lit (createSeparator fm CHR ''-''),
      quiet (optionalLine fm pf ''Notas:'' receipt ''notes''),
      lit (typeFooter fm ''cash_transfer'')]"

definition formatShiftClosureReceipt :: "formatter \<Rightarrow> platform \<Rightarrow> jsval \<Rightarrow> string out" where
  "formatShiftClosureReceipt fm pf receipt = concat_out
     [lit (typeHeader fm ''shift_closure''),
      quiet (fieldLine fm pf ''Turno #:'' receipt ''shiftId''),
      quiet (fieldLine fm pf ''Tipo:'' receipt ''shiftType''),
      quiet (fieldLine fm pf ''Fecha:'' receipt ''shiftDate''),
      quiet (bind_res (getProp receipt ''startTime'') (\<lambda>startTime.
        bind_res (getProp receipt ''endTime'') (\<lambda>endTime.
        bind_res (js_string_of pf startTime) (\<lambda>startText.
        bind_res (js_string_of pf endTime) (\<lambda>endText.
          lineNL (formatLine fm pf ''Hora:'' (JStr (startText @ '' - '' @ endText)))))))),
      lit (createSeparator fm CHR ''-''),
      quiet (fieldLine fm pf ''Cajero:'' receipt ''cashierName''),
      quiet (currencyLine fm pf ''Inicio:'' receipt ''startingCash''),
      quiet (currencyLine fm pf ''Ventas Turno:'' receipt ''shiftSales''),
      quiet (currencyLine fm pf ''Efectivo Esperado:'' receipt ''endingCashExpected''),
      quiet (currencyLine fm pf ''Efectivo Contado:'' receipt ''endingCashCounted''),
      quiet (currencyLine fm pf ''Variacion:'' receipt ''variance''),
      lit (createSeparator fm CHR ''-''),
      quiet (currencyLine fm pf ''Transferencias:'' receipt ''transfersOut''),
      lit (typeFooter fm ''shift_closure'')]"

definition formatShiftHandoffReceipt :: "formatter \<Rightarrow> platform \<Rightarrow> jsval \<Rightarrow> string out" where
  "formatShiftHandoffReceipt fm pf receipt = concat_out
     [lit (typeHeader fm ''shift_handoff''),
      quiet (fieldLine fm pf ''Entrega #:'' receipt ''handoffId''),
      dateLine fm pf ''Fecha:'' receipt ''handoffDate'',
      lit (createSeparator fm CHR ''-''),
      quiet (fieldLine fm pf ''Sale:'' receipt ''outgoingCashier''),
      quiet (lineNL (formatLine fm pf ''Firma:'' (JStr ''____________________''))), lit NL,
      quiet (fieldLine fm pf ''Recibe:'' receipt ''incomingCashier''),
      quiet (lineNL (formatLine fm pf ''Firma:'' (JStr ''____________________''))),
      lit (createSeparator fm CHR ''-''),
      quiet (currencyLine fm pf ''Efectivo Entregado:'' receipt ''handoffAmount''),
      quiet (currencyLine fm pf ''Efectivo Verificado:'' receipt ''verifiedAmount''),
      quiet (currencyLine fm pf ''Diferencia:'' receipt ''variance''),
      quiet (fieldLine fm pf ''Estado:'' receipt ''status''),
      lit (typeFooter fm ''shift_handoff'')]"

definition formatCashExpenseReceipt :: "formatter \<Rightarrow> platform \<Rightarrow> jsval \<Rightarrow> string out" where
  "formatCashExpenseReceipt fm pf receipt = concat_out
     [lit (typeHeader fm ''cash_expense''),
      quiet (fieldLine fm pf ''Gasto #:'' receipt ''cashExpenseId''),
      quiet (fieldLine fm pf ''Comprobante:'' receipt ''expenseId''),
      quiet (fieldLine fm pf ''Turno:'' receipt ''shiftInfo''),
      dateLine fm pf ''Fecha:'' receipt ''date'',
      lit (createSeparator fm CHR ''-''),
      quiet (fieldLine fm pf ''Cajero:'' receipt ''cashierName''),
      quiet (fieldLine fm pf (''Categor'' @ [CHR 0xED] @ ''a:'') receipt ''category''),
      quiet (fieldLine fm pf (''Descripci'' @ [CHR 0xF3] @ ''n:'') receipt ''description''),
      quiet (currencyLine fm pf ''Monto:'' receipt ''amount''),
      lit (createSeparator fm CHR ''-''),
      quiet (lineNL (formatLine fm pf ''Firma Cajero:'' (JStr ''________________''))),
      quiet (lineNL (formatLine fm pf ''Fecha:'' (JStr ''___________________''))),
      lit (typeFooter fm ''cash_expense'')]"

text \<open>
  What one call finds outside the service and the formatter: what
  \<open>getAvailablePrinters()\<close> resolves to (or throws), whether
  \<open>print(bytes, printerName)\<close> throws (\<open>None\<close>: it resolves), \<open>Date.now()\<close>,
  \<open>new Date().toISOString()\<close>, and whether \<open>fs.access(logoPath)\<close> succeeds, which
  \<open>processLogo\<close> asks at every call of \<open>formatReceipt\<close>.
\<close>

record printer =
  name :: string
  status :: string
  isDefault :: bool
  model :: string
  location :: string
  description :: string

record world =
  availablePrinters :: "printer list res"
  printOutcome :: "string \<Rightarrow> string \<Rightarrow> exn option"
  dateNow :: nat
  nowISO :: string
  logoAccessible :: bool

text \<open>\<open>processLogo\<close>: the marker of the logo when the file can be accessed; otherwise a
  warning is logged and the result is \<open>null\<close>.\<close>

definition processLogo :: "world \<Rightarrow> string option \<times> event list" where
  "processLogo w =
     (if logoAccessible w
      then (Some (CENTER_ON @ ''[LOGO]'' @ CENTER_OFF), [])
      else (None, [Log Warn ''Logo processing failed, skipping logo:'']))"

text \<open>The \<open>switch\<close> of \<open>formatReceipt\<close> on \<open>type.toLowerCase()\<close>; its \<open>default\<close>
  branch logs the warning and then formats as a sales receipt.\<close>

definition formatByType :: "formatter \<Rightarrow> platform \<Rightarrow> jsval \<Rightarrow> string \<Rightarrow> string out" where
  "formatByType fm pf receipt type =
     (let t = toLowerCase type
      in if t = ''sales'' then formatSalesReceipt fm pf receipt
         else if t = ''cash_transfer'' then formatCashTransferReceipt fm pf receipt
         else if t = ''shift_closure'' then formatShiftClosureReceipt fm pf receipt
         else if t = ''shift_handoff'' then formatShiftHandoffReceipt fm pf receipt
         else if t = ''cash_expense'' then formatCashExpenseReceipt fm pf receipt
         else (case formatSalesReceipt fm pf receipt of
                 (body, logged) \<Rightarrow>
                   (body,
                    Log Warn (''Unknown receipt type: '' @ type @ '', falling back to sales format'')
                    # logged)))"

text \<open>\<open>formatReceipt(receipt, type = 'sales')\<close>: initialisation, character set, normal
  font, the logo, the receipt by type, three line feeds and the cut. Whatever is thrown on
  the way is caught, logged and thrown again as \<open>Error('Failed to format receipt: ...')\<close>.\<close>

definition formatReceipt ::
  "formatter \<Rightarrow> platform \<Rightarrow> world \<Rightarrow> jsval \<Rightarrow> string \<Rightarrow> string out" where
  "formatReceipt fm pf w receipt type =
     (let (logoText, logoLog) = processLogo w;
          start = INIT @ CHARSET_PC437 @ NORMAL_TEXT @
                  (case logoText of Some l \<Rightarrow> l @ NL | None \<Rightarrow> []);
          (body, typeLog) = formatByType fm pf receipt type
      in case body of
           Inl e \<Rightarrow>
             (Inl (Error (''Failed to format receipt: '' @ messageOf pf e)),
              logoLog @ typeLog @ [Log Err ''Receipt formatting error:''])
         | Inr b \<Rightarrow>
             (Inr (start @ b @ NL @ NL @ NL @ CUT_PAPER),
              logoLog @ typeLog @ [Log Info ''Receipt formatted successfully'']))"







section \<open>The print service (server.js)\<close>

text \<open>An entry of \<open>printerManager.printers\<close> is a \<open>printer\<close>, above.\<close>

text \<open>An entry of \<open>printQueue\<close>: \<open>{ receipt, printerName, timestamp: Date.now() }\<close>. A
  printer name is \<open>None\<close> when it is \<open>null\<close> or \<open>undefined\<close>.\<close>

record job =
  receipt :: jsval
  printerName :: "string option"
  timestamp :: nat

text \<open>The fields of \<open>POSPrinterService\<close> that hold state; the formatter is passed
  separately and the printer manager is read through the world below.\<close>

record service =
  printQueue :: "job list"
  maxQueueSize :: nat
  isProcessingQueue :: bool
  startTime :: nat
  lastPrintTime :: "string option"

definition initialService :: "nat \<Rightarrow> service" where
  "initialService t =
     \<lparr>printQueue = [], maxQueueSize = 10, isProcessingQueue = False,
      startTime = t, lastPrintTime = None\<rparr>"

text \<open>The object \<open>processPrintJob\<close> returns. \<open>queued\<close> and \<open>timestamp\<close> are absent
  (\<open>None\<close>) from the results that do not set them.\<close>

record print_result =
  success :: bool
  message :: string
  printerId :: string
  queued :: "bool option"
  result_timestamp :: "string option"

text \<open>Lines 454-456: \<open>printerName ? printers.find(p => p.name === printerName)
  : printers.find(p => p.isDefault) || printers[0]\<close>. The empty string is falsy.\<close>

definition targetPrinter :: "printer list \<Rightarrow> string option \<Rightarrow> printer option" where
  "targetPrinter printers pn =
     (let fallback =
            (case find isDefault printers of
               Some p \<Rightarrow> Some p
             | None \<Rightarrow> (case printers of [] \<Rightarrow> None | p # ps \<Rightarrow> Some p))
      in case pn of
           None \<Rightarrow> fallback
         | Some n \<Rightarrow> if n = [] then fallback else find (\<lambda>p. name p = n) printers)"

text \<open>
  \<open>processPrintJob\<close> without the trigger of lines 497-499: selection, the queue when the
  target is not online, formatting and submission. The production server calls
  \<open>formatReceipt(receipt)\<close>, so the type is the default \<open>'sales'\<close>. Every \<open>throw\<close> passes
  through the \<open>catch\<close> of lines 508-512, which logs and throws again.
\<close>

definition printAttempt ::
  "formatter \<Rightarrow> platform \<Rightarrow> world \<Rightarrow> service \<Rightarrow> jsval \<Rightarrow> string option
     \<Rightarrow> print_result res \<times> service \<times> event list" where
  "printAttempt fm pf w s r pn =
     (case availablePrinters w of
        Inl e \<Rightarrow> (Inl e, s, [GetAvailablePrinters, Log Err ''Print job failed:''])
      | Inr printers \<Rightarrow>
          (case targetPrinter printers pn of
             None \<Rightarrow>
               (Inl (Error ''No printers available''), s,
                [GetAvailablePrinters, Log Err ''Print job failed:''])
           | Some target \<Rightarrow>
               if status target \<noteq> ''online'' then
                 if length (printQueue s) < maxQueueSize s then
                   let q = printQueue s @ [\<lparr>receipt = r, printerName = pn, timestamp = dateNow w\<rparr>]
                   in (Inr \<lparr>success = False,
                            message = ''Printer offline, queued for printing. Queue position: ''
                                      @ string_of_nat (length q),
                            printerId = name target,
                            queued = Some True,
                            result_timestamp = None\<rparr>,
                       s\<lparr>printQueue := q\<rparr>,
                       [GetAvailablePrinters,
                        Log Warn (''Printer offline, added to queue. Queue length: ''
                                  @ string_of_nat (length q))])
                 else
                   (Inl (Error ''Printer offline and queue is full''), s,
                    [GetAvailablePrinters, Log Err ''Print job failed:''])
               else
                 (case formatReceipt fm pf w r ''sales'' of
                    (Inl e, fl) \<Rightarrow>
                      (Inl e, s, GetAvailablePrinters # fl @ [Log Err ''Print job failed:''])
                  | (Inr formattedReceipt, fl) \<Rightarrow>
                      (case printOutcome w formattedReceipt (name target) of
                         Some e \<Rightarrow>
                           (Inl e, s,
                            GetAvailablePrinters # fl @
                            [Print formattedReceipt (name target), Log Err ''Print job failed:''])
                       | None \<Rightarrow>
                           (Inr \<lparr>success = True,
                                 message = ''Receipt printed successfully'',
                                 printerId = name target,
                                 queued = None,
                                 result_timestamp = Some (nowISO w)\<rparr>,
                            s\<lparr>lastPrintTime := Some (nowISO w)\<rparr>,
                            GetAvailablePrinters # fl @
                            [Print formattedReceipt (name target),
                             Log Info ''Receipt printed successfully''])))))"


text \<open>
  The loop of \<open>processQueue\<close> (lines 523-539); \<open>ws k\<close> is the world that the attempt number
  \<open>k\<close> of the pass finds. The flag is set while the loop runs, so the \<open>processPrintJob\<close>
  called at line 526 does not take the trigger of lines 497-499 and is \<open>printAttempt\<close>.
  The oldest job is shifted out, attempted, and put back in front when the attempt queued
  it again, which ends the pass; an attempt that throws is logged and the loop goes on.
\<close>

function drain_loop ::
  "formatter \<Rightarrow> platform \<Rightarrow> (nat \<Rightarrow> world) \<Rightarrow> nat \<Rightarrow> service \<Rightarrow> service \<times> event list" where
  "drain_loop fm pf ws k s =
     (case printQueue s of
        [] \<Rightarrow> (s, [])
      | j # rest \<Rightarrow>
          (case printAttempt fm pf (ws k) (s\<lparr>printQueue := rest\<rparr>) (receipt j) (printerName j) of
             (Inr result, s', evs) \<Rightarrow>
               if \<not> success result \<and> queued result = Some True
               then (s'\<lparr>printQueue := j # printQueue s'\<rparr>, evs)
               else (case drain_loop fm pf ws (Suc k) s' of
                       (s'', evs') \<Rightarrow>
                         (s'', evs @ Log Info ''Queued job printed successfully'' # evs'))
           | (Inl e, s', evs) \<Rightarrow>
               (case drain_loop fm pf ws (Suc k) s' of
                  (s'', evs') \<Rightarrow> (s'', evs @ Log Err ''Failed to print queued job:'' # evs'))))"
  by pat_completeness auto
termination
  apply (relation "measure (\<lambda>(fm, pf, ws, k, s). length (printQueue s))")
    apply simp
   apply (auto simp: printAttempt_def Let_def
               split: sum.splits option.splits if_splits prod.splits)
  done

declare drain_loop.simps [simp del]

text \<open>\<open>processQueue\<close> from its call to its end: the guard of lines 516-518, the flag set
  at line 520, the loop, and the flag cleared at line 541.\<close>

definition processQueue ::
  "formatter \<Rightarrow> platform \<Rightarrow> (nat \<Rightarrow> world) \<Rightarrow> service \<Rightarrow> service \<times> event list" where
  "processQueue fm pf ws s =
     (if isProcessingQueue s \<or> printQueue s = [] then (s, [])
      else (case drain_loop fm pf ws 0 (s\<lparr>isProcessingQueue := True\<rparr>) of
              (s', evs) \<Rightarrow>
                (s'\<lparr>isProcessingQueue := False\<rparr>,
                 Log Info (''Processing print queue, '' @ string_of_nat (length (printQueue s))
                           @ '' items'') # evs)))"

text \<open>
  \<open>processQueue()\<close> called and not awaited, as line 498 does: the call runs as far as
  its first \<open>await\<close> and returns. Past the guard it has set the flag, logged, taken the
  oldest job out of the queue (line 525) and entered the attempt on it, which is pending on
  the printers; the job is in the hands of the pass, not in the queue.
\<close>

definition startPass :: "service \<Rightarrow> service \<times> event list" where
  "startPass s =
     (if isProcessingQueue s then (s, [])
      else (case printQueue s of
              [] \<Rightarrow> (s, [])
            | j # rest \<Rightarrow>
                (s\<lparr>isProcessingQueue := True, printQueue := rest\<rparr>,
                 [Log Info (''Processing print queue, '' @ string_of_nat (length (printQueue s))
                            @ '' items''),
                  PassStarted (receipt j) (printerName j) (timestamp j)])))"

text \<open>
  The rest of a pass that was started and holds the job \<open>j\<close>, run when its attempt
  resumes on the service as it is by then: the attempt, the requeue or the next jobs, and
  line 541. This is the loop entered with \<open>j\<close> back in front, whose first step takes
  \<open>j\<close> out again.
\<close>

definition resumePass ::
  "formatter \<Rightarrow> platform \<Rightarrow> (nat \<Rightarrow> world) \<Rightarrow> job \<Rightarrow> service \<Rightarrow> service \<times> event list" where
  "resumePass fm pf ws j s =
     (case drain_loop fm pf ws 0 (s\<lparr>printQueue := j # printQueue s\<rparr>) of
        (s', evs) \<Rightarrow> (s'\<lparr>isProcessingQueue := False\<rparr>, evs))"

text \<open>
  \<open>processPrintJob\<close> (lines 446-513): the attempt in the world \<open>ws 0\<close> and, after a
  successful print with the flag clear, the call of \<open>processQueue()\<close> that is not
  awaited. When \<open>processPrintJob\<close> returns, a pass that was started is suspended in its
  first attempt; it goes on later, as \<open>resumePass\<close>, in the worlds \<open>ws 1\<close>,
  \<open>ws 2\<close>, ... The result carries the time of line 488.
\<close>

definition processPrintJob ::
  "formatter \<Rightarrow> platform \<Rightarrow> (nat \<Rightarrow> world) \<Rightarrow> service \<Rightarrow> jsval \<Rightarrow> string option
     \<Rightarrow> print_result res \<times> service \<times> event list" where
  "processPrintJob fm pf ws s r pn =
     (case printAttempt fm pf (ws 0) s r pn of
        (Inr result, s', evs) \<Rightarrow>
          if success result \<and> \<not> isProcessingQueue s'
          then (case startPass s' of
                  (s'', evs') \<Rightarrow> (Inr result, s'', evs @ evs'))
          else (Inr result, s', evs)
      | (Inl e, s', evs) \<Rightarrow> (Inl e, s', evs))"

text \<open>The timer of \<open>startPrinterDetection\<close> (lines 632-643): after a refresh that did not
  throw, a pass is asked for when the queue is not empty.\<close>

definition printerDetectionTick ::
  "formatter \<Rightarrow> platform \<Rightarrow> bool \<Rightarrow> (nat \<Rightarrow> world) \<Rightarrow> service \<Rightarrow> service \<times> event list" where
  "printerDetectionTick fm pf refreshed ws s =
     (if \<not> refreshed then (s, [Log Err ''Printer detection error:''])
      else if length (printQueue s) > 0 then processQueue fm pf ws s
      else (s, []))"


section \<open>The HTTP routes (server.js, setupRoutes)\<close>

definition is_number :: "jsval \<Rightarrow> bool" where
  "is_number v = (case v of JNum n \<Rightarrow> True | _ \<Rightarrow> False)"

text \<open>The callback of \<open>receipt.items.forEach\<close> (lines 435-440).\<close>

definition validateItem :: "nat \<Rightarrow> jsval \<Rightarrow> string list res" where
  "validateItem index item =
     bind_res (getProp item ''name'') (\<lambda>nm.
     bind_res (getProp item ''quantity'') (\<lambda>quantity.
     bind_res (getProp item ''price'') (\<lambda>price.
     bind_res (getProp item ''total'') (\<lambda>total.
       let label = ''Item '' @ string_of_nat (index + 1)
       in Inr ((if \<not> truthy nm then [label @ '': name is required''] else []) @
               (if \<not> is_number quantity then [label @ '': quantity must be a number''] else []) @
               (if \<not> is_number price then [label @ '': price must be a number''] else []) @
               (if \<not> is_number total then [label @ '': total must be a number''] else []))))))"

fun validateItems :: "nat \<Rightarrow> jsval list \<Rightarrow> string list res" where
  "validateItems index [] = Inr []"
| "validateItems index (item # items) =
     bind_res (validateItem index item) (\<lambda>errs.
     bind_res (validateItems (Suc index) items) (\<lambda>more. Inr (errs @ more)))"

text \<open>\<open>validateReceiptData\<close> (lines 415-444). It returns \<open>{ valid, errors }\<close>, and throws
  where \<open>receipt.items\<close> is truthy without being an array (no \<open>forEach\<close>) or holds
  \<open>null\<close>.\<close>

definition validateReceiptData :: "jsval \<Rightarrow> (bool \<times> string list) res" where
  "validateReceiptData r =
     (if \<not> truthy r then Inr (False, [''Receipt data is required''])
      else
        bind_res (getProp r ''orderNumber'') (\<lambda>orderNumber.
        bind_res (getProp r ''date'') (\<lambda>date.
        bind_res (getProp r ''items'') (\<lambda>items.
        bind_res (getProp r ''subtotal'') (\<lambda>subtotal.
        bind_res (getProp r ''tax'') (\<lambda>tax.
        bind_res (getProp r ''total'') (\<lambda>total.
        bind_res (getProp r ''paymentMethod'') (\<lambda>paymentMethod.
          let errors =
                (if \<not> truthy orderNumber then [''Order number is required''] else []) @
                (if \<not> truthy date then [''Date is required''] else []) @
                (if (case items of JArr xs \<Rightarrow> xs = [] | _ \<Rightarrow> True)
                 then [''Items array is required and must not be empty''] else []) @
                (if \<not> is_number subtotal then [''Subtotal must be a number''] else []) @
                (if \<not> is_number tax then [''Tax must be a number''] else []) @
                (if \<not> is_number total then [''Total must be a number''] else []) @
                (if \<not> truthy paymentMethod then [''Payment method is required''] else [])
          in bind_res
               (if truthy items
                then (case items of
                        JArr xs \<Rightarrow> validateItems 0 xs
                      | _ \<Rightarrow> Inl (TypeError (NotAFunction ''receipt.items.forEach'')))
                else Inr [])
               (\<lambda>itemErrors.
                  Inr (errors @ itemErrors = [], errors @ itemErrors))))))))))"

text \<open>What a route sends: the result of \<open>processPrintJob\<close> with the time of the response
  written over its \<open>timestamp\<close>, the body \<open>{ success: false, error, timestamp }\<close> of a
  rejected or failed request, or the body of \<open>/preview\<close> with \<open>success: true\<close>,
  \<open>preview\<close>, \<open>escPosCodes\<close>, \<open>rawLength\<close> and \<open>timestamp\<close>.\<close>

datatype response_body =
    PrintResponse print_result
  | FailureResponse string string
  | PreviewResponse string "string list" nat string

record response =
  statusCode :: nat
  responseBody :: response_body

text \<open>\<open>POST /print\<close> (lines 334-365); \<open>now\<close> is the time at which the response is
  built. No printer name is passed on.\<close>

definition printRoute ::
  "formatter \<Rightarrow> platform \<Rightarrow> (nat \<Rightarrow> world) \<Rightarrow> string \<Rightarrow> service \<Rightarrow> jsval
     \<Rightarrow> response \<times> service \<times> event list" where
  "printRoute fm pf ws now s reqBody =
     (case bind_res (destructure reqBody ''receipt'') (\<lambda>r.
             bind_res (validateReceiptData r) (\<lambda>validation. Inr (r, validation))) of
        Inl e \<Rightarrow>
          (\<lparr>statusCode = 500, responseBody = FailureResponse (messageOf pf e) now\<rparr>, s,
           [Log Err ''Print endpoint error:''])
      | Inr (r, valid, errors) \<Rightarrow>
          if \<not> valid then
            (\<lparr>statusCode = 400,
              responseBody = FailureResponse (''Invalid receipt data: '' @ join '', '' errors) now\<rparr>,
             s, [])
          else
            (case processPrintJob fm pf ws s r None of
               (Inl e, s', evs) \<Rightarrow>
                 (\<lparr>statusCode = 500, responseBody = FailureResponse (messageOf pf e) now\<rparr>, s',
                  evs @ [Log Err ''Print endpoint error:''])
             | (Inr result, s', evs) \<Rightarrow>
                 (\<lparr>statusCode = 200,
                   responseBody = PrintResponse (result\<lparr>result_timestamp := Some now\<rparr>)\<rparr>,
                  s', evs)))"




section \<open>Passes of the queue at the granularity of the flag\<close>

text \<open>
  \<open>processQueue\<close> is \<open>async\<close>: between two \<open>await\<close>s a block runs alone, and at an
  \<open>await\<close> the blocks of other requests and of the timer may run. The flag
  \<open>isProcessingQueue\<close> is written in two places only: line 520, in the block that has
  just read it at line 516 (the trigger of line 497 and the timer of line 637 both call
  into this block), and line 541, where a pass ends. \<open>passes\<close> counts the activations of
  \<open>processQueue\<close> that are between these two lines. Every other block writes the queue
  (lines 467, 525, 530) or \<open>lastPrintTime\<close> (line 488), here with any value at all.
\<close>

record system =
  svc :: service
  passes :: nat

datatype action =
    Trigger
  | PassExit
  | Update "job list" "string option"

fun act :: "system \<Rightarrow> action \<Rightarrow> system" where
  "act \<sigma> Trigger =
     (if isProcessingQueue (svc \<sigma>) \<or> printQueue (svc \<sigma>) = [] then \<sigma>
      else \<sigma>\<lparr>svc := (svc \<sigma>)\<lparr>isProcessingQueue := True\<rparr>, passes := Suc (passes \<sigma>)\<rparr>)"
| "act \<sigma> PassExit =
     (if passes \<sigma> = 0 then \<sigma>
      else \<sigma>\<lparr>svc := (svc \<sigma>)\<lparr>isProcessingQueue := False\<rparr>, passes := passes \<sigma> - 1\<rparr>)"
| "act \<sigma> (Update q t) = \<sigma>\<lparr>svc := (svc \<sigma>)\<lparr>printQueue := q, lastPrintTime := t\<rparr>\<rparr>"

definition interleaving :: "nat \<Rightarrow> action list \<Rightarrow> system" where
  "interleaving t as = foldl act \<lparr>svc = initialService t, passes = 0\<rparr> as"


section \<open>Receipt types and the sales schema\<close>


text \<open>A value of JSON that converts to text: no object in it, at the top or as an element
  of an array, has a property named \<open>toString\<close>.\<close>

fun convertible :: "jsval \<Rightarrow> bool" where
  "convertible (JObj fs) = (\<not> hasOwn fs ''toString'')"
| "convertible (JArr xs) = list_all convertible xs"
| "convertible v = True"

text \<open>The value of a field, \<open>undefined\<close> when there is none.\<close>

definition field :: "jsval \<Rightarrow> string \<Rightarrow> jsval" where
  "field v k = (case getProp v k of Inr x \<Rightarrow> x | Inl e \<Rightarrow> JUndefined)"

text \<open>
  A document of the sales schema. It passes \<open>validateReceiptData\<close>, the check that
  \<open>/print\<close> and \<open>/preview\<close> apply: order number, date and payment method are
  present, the amounts are numbers, the items are a non-empty array and each item has a
  name and numeric quantity, price and total. Its payment method is a string. And what it
  gives to be printed as text (order number, date, cashier, transfer reference, the names
  of the items) converts to text, as strings and numbers do.
\<close>

definition salesDocument :: "jsval \<Rightarrow> bool" where
  "salesDocument r =
     (validateReceiptData r = Inr (True, []) \<and>
      (case field r ''paymentMethod'' of JStr s \<Rightarrow> True | _ \<Rightarrow> False) \<and>
      convertible (field r ''orderNumber'') \<and>
      convertible (field r ''date'') \<and>
      convertible (field r ''cashier'') \<and>
      convertible (field r ''transferReference'') \<and>
      (case field r ''items'' of
         JArr xs \<Rightarrow> list_all (\<lambda>item. convertible (field item ''name'')) xs
       | _ \<Rightarrow> False))"

section \<open>Concrete inputs\<close>

text \<open>A formatter with an empty configuration on 48 columns.\<close>

definition exampleFormatter :: formatter where
  "exampleFormatter =
     \<lparr>restaurantName = [], address = [], phone = [], taxLabel = [], footerMessage = [],
      dateFormat = [], receiptTypes = (\<lambda>t. None), paperWidth = 48\<rparr>"

text \<open>The digits of a fraction \<open>0 \<le> q < 1\<close>, at most \<open>n\<close> of them.\<close>

fun fractionDigits :: "nat \<Rightarrow> rat \<Rightarrow> string" where
  "fractionDigits 0 q = []"
| "fractionDigits (Suc n) q =
     (if q = 0 then []
      else digit_char (nat \<lfloor>q * 10\<rfloor>) # fractionDigits n (q * 10 - of_int \<lfloor>q * 10\<rfloor>))"

text \<open>The number written by a string of decimal digits.\<close>

definition digitsValue :: "string \<Rightarrow> nat" where
  "digitsValue s = foldl (\<lambda>n c. 10 * n + (of_char c - 48)) 0 s"

text \<open>
  A platform for the examples: V8 in a locale of the United States, five hours behind
  UTC. It is the engine on the values the examples use and their like: numbers that are
  decimals of at most 15 significant digits with a magnitude from \<open>10\<^sup>-\<^sup>6\<close> up to
  \<open>10\<^sup>2\<^sup>1\<close>, or zero, which \<open>toString\<close> writes digit by digit and \<open>toFixed(0)\<close> rounds to
  the nearest integer, halves away from zero, keeping the sign; strings of decimal digits
  and the empty string as numbers; and one date, every other value being taken for an
  invalid date.
\<close>

definition exampleDate :: jsval where
  "exampleDate = JStr ''2024-08-09T05:04:43.000Z''"

definition quoted :: "string \<Rightarrow> string" where
  "quoted s = [CHR 0x27] @ s @ [CHR 0x27]"

fun nullishName :: "jsval \<Rightarrow> string" where
  "nullishName JNull = ''null''"
| "nullishName v = ''undefined''"

fun exampleTypeErrorMessage :: "type_error \<Rightarrow> string" where
  "exampleTypeErrorMessage (ReadOfNullish v k) =
     ''Cannot read properties of '' @ nullishName v @ '' (reading '' @ quoted k @ '')''"
| "exampleTypeErrorMessage (DestructureOfNullish v k) =
     ''Cannot destructure property '' @ quoted k @ '' of '' @ quoted ''req.body''
     @ '' as it is '' @ nullishName v @ ''.''"
| "exampleTypeErrorMessage (NotAFunction what) = what @ '' is not a function''"
| "exampleTypeErrorMessage (NotIterable what) = what @ '' is not iterable''"
| "exampleTypeErrorMessage NoPrimitive = ''Cannot convert object to primitive value''"

definition examplePlatform :: platform where
  "examplePlatform =
     \<lparr>numToString = (\<lambda>q.
        (if q < 0 then ''-'' else []) @ string_of_nat (nat \<lfloor>\<bar>q\<bar>\<rfloor>) @
        (if \<bar>q\<bar> = of_int \<lfloor>\<bar>q\<bar>\<rfloor> then []
         else ''.'' @ fractionDigits 21 (\<bar>q\<bar> - of_int \<lfloor>\<bar>q\<bar>\<rfloor>))),
      toFixed0 = (\<lambda>q. (if q < 0 then ''-'' else []) @ string_of_nat (nat \<lfloor>\<bar>q\<bar> + 1 / 2\<rfloor>)),
      toNumber = (\<lambda>s.
        if list_all (\<lambda>c. c \<in> set ''0123456789'') s then Some (of_nat (digitsValue s))
        else None),
      toLocaleDateString = (\<lambda>v. if v = exampleDate then ''8/9/2024'' else ''Invalid Date''),
      toLocaleString = (\<lambda>v. if v = exampleDate then ''8/9/2024, 12:04:43 AM''
                              else ''Invalid Date''),
      toLocaleTimeString = (\<lambda>v. if v = exampleDate then ''12:04:43 AM'' else ''Invalid Date''),
      getFullYear = (\<lambda>v. if v = exampleDate then Some 2024 else None),
      getMonth = (\<lambda>v. if v = exampleDate then Some 7 else None),
      getDate = (\<lambda>v. if v = exampleDate then Some 9 else None),
      objectFunctionText = ''function Object() { [native code] }'',
      typeErrorMessage = exampleTypeErrorMessage\<rparr>"

text \<open>The receipt that \<open>/test-print\<close> builds; a cash transfer; the printer of the
  specification's scenario.\<close>

definition testReceipt :: jsval where
  "testReceipt = JObj
     [(''orderNumber'', JStr ''TEST-001''),
      (''date'', JStr ''2024-08-09T05:04:43.000Z''),
      (''cashier'', JStr ''Test Cashier''),
      (''items'', JArr
         [JObj [(''name'', JStr ''Test Item 1''), (''quantity'', JNum 2),
                (''price'', JNum 10), (''total'', JNum 20)],
          JObj [(''name'', JStr ''Test Item 2''), (''quantity'', JNum 1),
                (''price'', JNum (11 / 2)), (''total'', JNum (11 / 2))]]),
      (''subtotal'', JNum (51 / 2)),
      (''tax'', JNum (217 / 100)),
      (''total'', JNum (2767 / 100)),
      (''paymentMethod'', JStr ''cash''),
      (''tendered'', JNum 30),
      (''change'', JNum (233 / 100))]"


definition rongta :: "string \<Rightarrow> printer" where
  "rongta st =
     \<lparr>name = ''Rongta'', status = st, isDefault = True, model = ''Unknown'',
      location = [], description = []\<rparr>"

text \<open>A world with the given printers, a spooler that accepts every job or rejects every
  job, a clock, and no logo file.\<close>

definition exampleWorld :: "printer list \<Rightarrow> bool \<Rightarrow> nat \<Rightarrow> world" where
  "exampleWorld printers accepting t =
     \<lparr>availablePrinters = Inr printers,
      printOutcome = (\<lambda>bytes pn. if accepting then None else Some (Error ''Print command failed'')),
      dateNow = t,
      nowISO = ''T'' @ string_of_nat t,
      logoAccessible = False\<rparr>"

definition queuedJob :: "nat \<Rightarrow> job" where
  "queuedJob t = \<lparr>receipt = testReceipt, printerName = None, timestamp = t\<rparr>"

definition queueOf :: "nat \<Rightarrow> service" where
  "queueOf n = (initialService 0)\<lparr>printQueue := map queuedJob [0..<n]\<rparr>"

section \<open>What one attempt does to the service\<close>

lemma printAttempt_frame:
  "printAttempt fm pf w s r pn = (res, s', evs) \<Longrightarrow>
     maxQueueSize s' = maxQueueSize s \<and> startTime s' = startTime s \<and>
     isProcessingQueue s' = isProcessingQueue s"
  by (auto simp: printAttempt_def Let_def split: sum.splits option.splits if_splits prod.splits)

lemma printAttempt_failure_state:
  "printAttempt fm pf w s r pn = (Inl e, s', evs) \<Longrightarrow> s' = s"
  by (auto simp: printAttempt_def Let_def split: sum.splits option.splits if_splits prod.splits)

lemma printAttempt_queued_state:
  "printAttempt fm pf w s r pn = (Inr res, s', evs) \<Longrightarrow> \<not> success res \<Longrightarrow>
     queued res = Some True \<and> lastPrintTime s' = lastPrintTime s \<and>
     printQueue s' = printQueue s @ [\<lparr>receipt = r, printerName = pn, timestamp = dateNow w\<rparr>] \<and>
     length (printQueue s) < maxQueueSize s"
  by (auto simp: printAttempt_def Let_def split: sum.splits option.splits if_splits prod.splits)

lemma printAttempt_printed_state:
  "printAttempt fm pf w s r pn = (Inr res, s', evs) \<Longrightarrow> success res \<Longrightarrow>
     s' = s\<lparr>lastPrintTime := Some (nowISO w)\<rparr> \<and> result_timestamp res = Some (nowISO w)
     \<and> queued res = None"
  by (auto simp: printAttempt_def Let_def split: sum.splits option.splits if_splits prod.splits)


text \<open>The test receipt passes \<open>validateReceiptData\<close>.\<close>

lemma validate_testReceipt: "validateReceiptData testReceipt = Inr (True, [])"
  by code_simp

section \<open>The loop of a pass, case by case\<close>

lemma printAttempt_result_kind:
  "printAttempt fm pf w s r pn = (Inr res, s', evs) \<Longrightarrow>
     (\<not> success res \<and> queued res = Some True) = (\<not> success res)"
  by (auto simp: printAttempt_def Let_def split: sum.splits option.splits if_splits prod.splits)

lemma drain_loop_empty:
  "printQueue s = [] \<Longrightarrow> drain_loop fm pf ws k s = (s, [])"
  by (simp add: drain_loop.simps)

lemma drain_loop_requeued:
  assumes "printQueue s = j # rest"
    and "printAttempt fm pf (ws k) (s\<lparr>printQueue := rest\<rparr>) (receipt j) (printerName j)
           = (Inr result, s1, e1)"
    and "\<not> success result"
  shows "drain_loop fm pf ws k s = (s1\<lparr>printQueue := j # printQueue s1\<rparr>, e1)"
  using assms printAttempt_result_kind [OF assms(2)]
  by (simp add: drain_loop.simps [of fm pf ws k s])

lemma drain_loop_printed:
  assumes "printQueue s = j # rest"
    and "printAttempt fm pf (ws k) (s\<lparr>printQueue := rest\<rparr>) (receipt j) (printerName j)
           = (Inr result, s1, e1)"
    and "success result"
    and "drain_loop fm pf ws (Suc k) s1 = (s2, e2)"
  shows "drain_loop fm pf ws k s = (s2, e1 @ Log Info ''Queued job printed successfully'' # e2)"
  using assms by (simp add: drain_loop.simps [of fm pf ws k s])

lemma drain_loop_failed:
  assumes "printQueue s = j # rest"
    and "printAttempt fm pf (ws k) (s\<lparr>printQueue := rest\<rparr>) (receipt j) (printerName j)
           = (Inl e, s1, e1)"
    and "drain_loop fm pf ws (Suc k) s1 = (s2, e2)"
  shows "drain_loop fm pf ws k s = (s2, e1 @ Log Err ''Failed to print queued job:'' # e2)"
  using assms by (simp add: drain_loop.simps [of fm pf ws k s])

lemma drain_loop_cases_induct [case_names empty requeued printed failed]:
  assumes empty: "\<And>k s. printQueue s = [] \<Longrightarrow> P k s (s, [])"
    and requeued: "\<And>k s j rest result s1 e1.
          printQueue s = j # rest \<Longrightarrow>
          printAttempt fm pf (ws k) (s\<lparr>printQueue := rest\<rparr>) (receipt j) (printerName j)
            = (Inr result, s1, e1) \<Longrightarrow>
          \<not> success result \<Longrightarrow>
          P k s (s1\<lparr>printQueue := j # printQueue s1\<rparr>, e1)"
    and printed: "\<And>k s j rest result s1 e1 s2 e2.
          printQueue s = j # rest \<Longrightarrow>
          printAttempt fm pf (ws k) (s\<lparr>printQueue := rest\<rparr>) (receipt j) (printerName j)
            = (Inr result, s1, e1) \<Longrightarrow>
          success result \<Longrightarrow>
          drain_loop fm pf ws (Suc k) s1 = (s2, e2) \<Longrightarrow>
          P (Suc k) s1 (s2, e2) \<Longrightarrow>
          P k s (s2, e1 @ Log Info ''Queued job printed successfully'' # e2)"
    and failed: "\<And>k s j rest e s1 e1 s2 e2.
          printQueue s = j # rest \<Longrightarrow>
          printAttempt fm pf (ws k) (s\<lparr>printQueue := rest\<rparr>) (receipt j) (printerName j)
            = (Inl e, s1, e1) \<Longrightarrow>
          drain_loop fm pf ws (Suc k) s1 = (s2, e2) \<Longrightarrow>
          P (Suc k) s1 (s2, e2) \<Longrightarrow>
          P k s (s2, e1 @ Log Err ''Failed to print queued job:'' # e2)"
  shows "P k s (drain_loop fm pf ws k s)"
proof (induction q \<equiv> "printQueue s" arbitrary: s k)
  case Nil
  then show ?case using empty [of s k] by (simp add: drain_loop_empty)
next
  case (Cons j rest)
  have q: "printQueue s = j # rest" using Cons.hyps(2) by simp
  obtain res s1 e1 where att:
    "printAttempt fm pf (ws k) (s\<lparr>printQueue := rest\<rparr>) (receipt j) (printerName j) = (res, s1, e1)"
    using prod_cases3 by blast
  obtain s2 e2 where rec: "drain_loop fm pf ws (Suc k) s1 = (s2, e2)"
    by (cases "drain_loop fm pf ws (Suc k) s1") auto
  show ?case
  proof (cases res)
    case (Inl e)
    have "s1 = s\<lparr>printQueue := rest\<rparr>"
      using printAttempt_failure_state att Inl by blast
    then have "rest = printQueue s1" by simp
    from Cons.hyps(1) [OF this, of "Suc k"] rec
    have "P (Suc k) s1 (s2, e2)" by simp
    from failed [OF q att [unfolded Inl] rec this]
    show ?thesis
      by (simp add: drain_loop_failed [where ws = ws and k = k, OF q att [unfolded Inl] rec])
  next
    case (Inr result)
    show ?thesis
    proof (cases "success result")
      case False
      from requeued [OF q att [unfolded Inr] False]
      show ?thesis
        by (simp add: drain_loop_requeued [where ws = ws and k = k, OF q att [unfolded Inr] False])
    next
      case True
      have "s1 = s\<lparr>printQueue := rest, lastPrintTime := Some (nowISO (ws k))\<rparr>"
        using printAttempt_printed_state [OF att [unfolded Inr] True] by simp
      then have "rest = printQueue s1" by simp
      from Cons.hyps(1) [OF this, of "Suc k"] rec
      have "P (Suc k) s1 (s2, e2)" by simp
      from printed [OF q att [unfolded Inr] True rec this]
      show ?thesis
        by (simp add: drain_loop_printed [where ws = ws and k = k, OF q att [unfolded Inr] True rec])
    qed
  qed
qed

lemma drain_loop_frame:
  "maxQueueSize (fst (drain_loop fm pf ws k s)) = maxQueueSize s \<and>
   startTime (fst (drain_loop fm pf ws k s)) = startTime s \<and>
   isProcessingQueue (fst (drain_loop fm pf ws k s)) = isProcessingQueue s"
proof -
  let ?P = "\<lambda>(k::nat) s (out :: service \<times> event list).
     maxQueueSize (fst out) = maxQueueSize s \<and> startTime (fst out) = startTime s \<and>
     isProcessingQueue (fst out) = isProcessingQueue s"
  have "?P k s (drain_loop fm pf ws k s)"
  proof (rule drain_loop_cases_induct [where P = ?P], goal_cases)
    case (1 k s)
    show ?case by simp
  next
    case (2 k s j rest result s1 e1)
    from printAttempt_frame [OF 2(2)] show ?case by simp
  next
    case (3 k s j rest result s1 e1 s2 e2)
    from printAttempt_frame [OF 3(2)] 3(5) show ?case by simp
  next
    case (4 k s j rest e s1 e1 s2 e2)
    from printAttempt_frame [OF 4(2)] 4(4) show ?case by simp
  qed
  then show ?thesis by simp
qed

lemma drain_loop_lastPrintTime:
  "lastPrintTime (fst (drain_loop fm pf ws k s)) = lastPrintTime s \<or>
   (\<exists>i\<ge>k. lastPrintTime (fst (drain_loop fm pf ws k s)) = Some (nowISO (ws i)))"
proof -
  let ?P = "\<lambda>(k::nat) s (out :: service \<times> event list).
     lastPrintTime (fst out) = lastPrintTime s \<or>
     (\<exists>i\<ge>k. lastPrintTime (fst out) = Some (nowISO (ws i)))"
  have "?P k s (drain_loop fm pf ws k s)"
  proof (rule drain_loop_cases_induct [where P = ?P], goal_cases)
    case (1 k s)
    show ?case by simp
  next
    case (2 k s j rest result s1 e1)
    from printAttempt_queued_state [OF 2(2,3)] show ?case by simp
  next
    case (3 k s j rest result s1 e1 s2 e2)
    from printAttempt_printed_state [OF 3(2,3)]
    have "lastPrintTime s1 = Some (nowISO (ws k))" by simp
    with 3(5) show ?case
      by (metis fst_conv le_refl Suc_leD)
  next
    case (4 k s j rest e s1 e1 s2 e2)
    from printAttempt_failure_state [OF 4(2)]
    have "lastPrintTime s1 = lastPrintTime s" by simp
    with 4(4) show ?case
      by (metis fst_conv Suc_leD)
  qed
  then show ?thesis by simp
qed


lemma processQueue_frame:
  "maxQueueSize (fst (processQueue fm pf ws s)) = maxQueueSize s \<and>
   startTime (fst (processQueue fm pf ws s)) = startTime s \<and>
   isProcessingQueue (fst (processQueue fm pf ws s)) = isProcessingQueue s"
  using drain_loop_frame [of fm pf ws 0 "s\<lparr>isProcessingQueue := True\<rparr>"]
  by (auto simp: processQueue_def split: prod.splits)

lemma processQueue_lastPrintTime:
  "lastPrintTime (fst (processQueue fm pf ws s)) = lastPrintTime s \<or>
   (\<exists>i. lastPrintTime (fst (processQueue fm pf ws s)) = Some (nowISO (ws i)))"
  using drain_loop_lastPrintTime [of fm pf ws 0 "s\<lparr>isProcessingQueue := True\<rparr>"]
  by (auto simp: processQueue_def split: prod.splits)

lemma processQueue_skipped:
  "isProcessingQueue s \<or> printQueue s = [] \<Longrightarrow> processQueue fm pf ws s = (s, [])"
  by (simp add: processQueue_def)


lemma printAttempt_printed_iff:
  "(\<exists>result. fst (printAttempt fm pf w s r pn) = Inr result \<and> success result) =
   (\<exists>printers target bytes fl.
      availablePrinters w = Inr printers \<and> targetPrinter printers pn = Some target \<and>
      status target = ''online'' \<and> formatReceipt fm pf w r ''sales'' = (Inr bytes, fl) \<and>
      printOutcome w bytes (name target) = None)"
  by (auto simp: printAttempt_def Let_def split: sum.splits option.splits if_splits prod.splits)

lemma processPrintJob_result:
  "fst (processPrintJob fm pf ws s r pn) = fst (printAttempt fm pf (ws 0) s r pn)"
  by (auto simp: processPrintJob_def split: sum.splits prod.splits)

section \<open>A pass started and resumed\<close>

lemma startPass_frame:
  "maxQueueSize (fst (startPass s)) = maxQueueSize s \<and>
   startTime (fst (startPass s)) = startTime s \<and>
   lastPrintTime (fst (startPass s)) = lastPrintTime s"
  by (simp add: startPass_def split: list.splits)

lemma startPass_flag:
  "isProcessingQueue (fst (startPass s)) = (isProcessingQueue s \<or> printQueue s \<noteq> [])"
  by (simp add: startPass_def split: list.splits)

lemma startPass_queue:
  "printQueue (fst (startPass s)) = (if isProcessingQueue s then printQueue s else tl (printQueue s))"
  by (simp add: startPass_def split: list.splits)

lemma startPass_events:
  "snd (startPass s) =
     (if isProcessingQueue s \<or> printQueue s = [] then []
      else [Log Info (''Processing print queue, '' @ string_of_nat (length (printQueue s))
                      @ '' items''),
            PassStarted (receipt (hd (printQueue s))) (printerName (hd (printQueue s)))
              (timestamp (hd (printQueue s)))])"
  by (simp add: startPass_def split: list.splits)

text \<open>A pass run from its call to its end is the pass started and then resumed, with no
  block of another request in between.\<close>

lemma processQueue_startPass_resumePass:
  assumes "\<not> isProcessingQueue s" and "printQueue s = j # rest"
  shows "processQueue fm pf ws s =
           (fst (resumePass fm pf ws j (fst (startPass s))),
            hd (snd (startPass s)) # snd (resumePass fm pf ws j (fst (startPass s))))"
proof -
  have held: "fst (startPass s) = s\<lparr>isProcessingQueue := True, printQueue := rest\<rparr>"
    using assms by (simp add: startPass_def)
  have front: "(fst (startPass s))\<lparr>printQueue := j # printQueue (fst (startPass s))\<rparr>
                = s\<lparr>isProcessingQueue := True\<rparr>"
    using assms(2) by (simp add: held)
  have logged: "hd (snd (startPass s)) =
                  Log Info (''Processing print queue, '' @ string_of_nat (length (printQueue s))
                            @ '' items'')"
    using assms by (simp add: startPass_def)
  show ?thesis
    unfolding resumePass_def front logged
    using assms by (simp add: processQueue_def split: prod.splits)
qed

text \<open>A pass whose oldest job still finds its printer offline: the attempt has pushed a
  new entry for the job at the back (line 467) before the loop puts the job itself back in
  front (line 530).\<close>

lemma pass_requeues_with_copy:
  assumes "\<not> isProcessingQueue s"
    and "printQueue s = j # rest"
    and "availablePrinters (ws 0) = Inr printers"
    and "targetPrinter printers (printerName j) = Some target"
    and "status target \<noteq> ''online''"
    and "length rest < maxQueueSize s"
  shows "printQueue (fst (processQueue fm pf ws s)) =
           j # rest @ [\<lparr>receipt = receipt j, printerName = printerName j,
                         timestamp = dateNow (ws 0)\<rparr>]"
proof -
  let ?s0 = "s\<lparr>isProcessingQueue := True\<rparr>"
  let ?c = "\<lparr>receipt = receipt j, printerName = printerName j, timestamp = dateNow (ws 0)\<rparr>"
  let ?res = "\<lparr>success = False,
               message = ''Printer offline, queued for printing. Queue position: ''
                         @ string_of_nat (length (rest @ [?c])),
               printerId = name target, queued = Some True, result_timestamp = None\<rparr>"
  have att: "printAttempt fm pf (ws 0) (?s0\<lparr>printQueue := rest\<rparr>) (receipt j) (printerName j)
               = (Inr ?res, ?s0\<lparr>printQueue := rest @ [?c]\<rparr>,
                  [GetAvailablePrinters,
                   Log Warn (''Printer offline, added to queue. Queue length: ''
                             @ string_of_nat (length (rest @ [?c])))])"
    using assms by (simp add: printAttempt_def Let_def)
  have q: "printQueue ?s0 = j # rest" using assms(2) by simp
  have "\<not> success ?res" by simp
  from drain_loop_requeued [where ws = ws and k = 0, OF q att this]
  show ?thesis using assms(1,2) by (simp add: processQueue_def)
qed

section \<open>Selecting the printer\<close>

lemma targetPrinter_unmatched:
  "n \<noteq> [] \<Longrightarrow> n \<notin> name ` set printers \<Longrightarrow> targetPrinter printers (Some n) = None"
  by (auto simp: targetPrinter_def find_None_iff)

lemma find_first:
  "(\<forall>q \<in> set ps1. \<not> P q) \<Longrightarrow> P p \<Longrightarrow> find P (ps1 @ p # ps2) = Some p"
  by (induction ps1) auto

section \<open>Rendering: the fallback and the sales template\<close>


lemma formatByType_sales:
  "formatByType fm pf r ''sales'' = formatSalesReceipt fm pf r"
  by (simp add: formatByType_def Let_def toLowerCase_def lower_char_def)




lemma fst_lit: "fst (lit s) = Inr s"
  by (simp add: lit_def)

lemma fst_quiet: "fst (quiet x) = x"
  by (simp add: quiet_def)

lemma concat_res_ok:
  "(\<forall>p \<in> set ps. \<not> isl p) \<Longrightarrow> \<not> isl (concat_res ps)"
  by (induction ps) (auto split: sum.splits)

lemma concat_out_ok:
  "(\<forall>p \<in> set ps. \<not> isl (fst p)) \<Longrightarrow> \<not> isl (fst (concat_out ps))"
  by (induction ps) (auto split: sum.splits prod.splits)

lemma isl_sequence_res: "isl (sequence_res ps) = (\<exists>p \<in> set ps. isl p)"
  by (induction ps) (auto split: sum.splits)

text \<open>\<open>convertible\<close> says exactly when the conversion to text returns.\<close>

lemma js_string_of_convertible: "isl (js_string_of pf v) = (\<not> convertible v)"
proof (induction v)
  case (JArr xs)
  have "isl (js_string_of pf (JArr xs)) =
          (\<exists>x \<in> set xs. isl (if x = JUndefined \<or> x = JNull then Inr [] else js_string_of pf x))"
    by (cases "sequence_res (map (\<lambda>x. if x = JUndefined \<or> x = JNull then Inr []
                                          else js_string_of pf x) xs)")
       (use isl_sequence_res [of "map (\<lambda>x. if x = JUndefined \<or> x = JNull then Inr []
                                          else js_string_of pf x) xs"]
        in \<open>auto simp: bind_res_def\<close>)
  also have "\<dots> = (\<exists>x \<in> set xs. \<not> convertible x)"
    using JArr.IH by (intro bex_cong) auto
  finally show ?case by (simp add: list_all_iff)
qed simp_all

lemma getProp_ok:
  "r \<noteq> JUndefined \<Longrightarrow> r \<noteq> JNull \<Longrightarrow> \<not> isl (getProp r k)"
  by (cases r) (auto split: option.splits)

lemma getProp_field:
  "r \<noteq> JUndefined \<Longrightarrow> r \<noteq> JNull \<Longrightarrow> getProp r k = Inr (field r k)"
  by (cases r) (auto simp: field_def split: option.splits)

lemma toString_method_ok:
  "v \<noteq> JUndefined \<Longrightarrow> v \<noteq> JNull \<Longrightarrow> convertible v \<Longrightarrow> \<not> isl (toString_method pf v)"
  using js_string_of_convertible [of pf v]
  by (cases v) (auto simp: toString_method_def)

lemma formatLine_ok:
  "v \<noteq> JUndefined \<Longrightarrow> v \<noteq> JNull \<Longrightarrow> convertible v \<Longrightarrow> \<not> isl (formatLine fm pf label v)"
  using toString_method_ok [of v pf]
  by (cases "toString_method pf v") (auto simp: formatLine_def bind_res_def Let_def)

lemma formatLine_string_ok: "\<not> isl (formatLine fm pf label (JStr s))"
  by (simp add: formatLine_ok)

lemma lineNL_ok: "\<not> isl x \<Longrightarrow> \<not> isl (lineNL x)"
  by (cases x) (auto simp: lineNL_def bind_res_def)

lemma truthy_defined: "truthy v \<Longrightarrow> v \<noteq> JUndefined \<and> v \<noteq> JNull"
  by (cases v) auto

lemma currencyLine_ok:
  "r \<noteq> JUndefined \<Longrightarrow> r \<noteq> JNull \<Longrightarrow> \<not> isl (currencyLine fm pf label r k)"
  by (simp add: currencyLine_def getProp_field bind_res_def lineNL_ok formatLine_string_ok)

lemma dateLine_ok:
  "r \<noteq> JUndefined \<Longrightarrow> r \<noteq> JNull \<Longrightarrow> convertible (field r k)
     \<Longrightarrow> \<not> isl (fst (dateLine fm pf label r k))"
  using js_string_of_convertible [of pf "field r k"]
  by (cases "js_string_of pf (field r k)")
     (auto simp: dateLine_def getProp_field formatDate_def Let_def lineNL_ok formatLine_string_ok)

lemma optionalLine_ok:
  "r \<noteq> JUndefined \<Longrightarrow> r \<noteq> JNull \<Longrightarrow> convertible (field r k)
     \<Longrightarrow> \<not> isl (optionalLine fm pf label r k)"
  by (auto simp: optionalLine_def getProp_field bind_res_def lineNL_ok formatLine_ok
           dest: truthy_defined)

lemma fieldLine_ok:
  "r \<noteq> JUndefined \<Longrightarrow> r \<noteq> JNull \<Longrightarrow> truthy (field r k) \<Longrightarrow> convertible (field r k)
     \<Longrightarrow> \<not> isl (fieldLine fm pf label r k)"
  by (auto simp: fieldLine_def getProp_field bind_res_def lineNL_ok formatLine_ok
           dest: truthy_defined)

lemma itemLine_ok:
  assumes "item \<noteq> JUndefined" and "item \<noteq> JNull"
    and "convertible (field item ''name'')" and "is_number (field item ''quantity'')"
  shows "\<not> isl (itemLine fm pf item)"
proof -
  obtain n where n: "js_string_of pf (field item ''name'') = Inr n"
    using js_string_of_convertible [of pf "field item ''name''"] assms(3)
    by (cases "js_string_of pf (field item ''name'')") auto
  obtain q where q: "js_string_of pf (field item ''quantity'') = Inr q"
    using assms(4) by (cases "field item ''quantity''") (auto simp: is_number_def)
  show ?thesis
    using assms(1,2) n q
    by (simp add: itemLine_def getProp_field bind_res_def Let_def lineNL_ok formatLine_string_ok)
qed

text \<open>What a list of items without errors holds.\<close>

lemma validateItem_valid:
  "validateItem i item = Inr [] \<Longrightarrow>
     item \<noteq> JUndefined \<and> item \<noteq> JNull \<and> is_number (field item ''quantity'')"
  by (cases item)
     (auto simp: validateItem_def bind_res_def Let_def field_def split: option.splits if_splits)

lemma validateItems_valid:
  "validateItems i xs = Inr [] \<Longrightarrow>
     \<forall>x \<in> set xs. x \<noteq> JUndefined \<and> x \<noteq> JNull \<and> is_number (field x ''quantity'')"
proof (induction xs arbitrary: i)
  case Nil
  show ?case by simp
next
  case (Cons x xs)
  from Cons.prems have a: "validateItem i x = Inr []" and b: "validateItems (Suc i) xs = Inr []"
    by (auto simp: bind_res_def split: sum.splits)
  from Cons.IH [OF b] validateItem_valid [OF a] show ?case by simp
qed

lemma salesDocument_fields:
  assumes "salesDocument r"
  shows "r \<noteq> JUndefined \<and> r \<noteq> JNull"
    and "truthy (field r ''orderNumber'') \<and> convertible (field r ''orderNumber'')"
    and "convertible (field r ''date'') \<and> convertible (field r ''cashier'')
         \<and> convertible (field r ''transferReference'')"
    and "\<exists>xs. field r ''items'' = JArr xs \<and>
           (\<forall>x \<in> set xs. x \<noteq> JUndefined \<and> x \<noteq> JNull \<and> is_number (field x ''quantity'')
                           \<and> convertible (field x ''name''))"
    and "\<exists>s. field r ''paymentMethod'' = JStr s"
    and "is_number (field r ''tax'')"
proof -
  from assms have v: "validateReceiptData r = Inr (True, [])"
    and pm: "case field r ''paymentMethod'' of JStr s \<Rightarrow> True | _ \<Rightarrow> False"
    and names: "case field r ''items'' of
                  JArr xs \<Rightarrow> list_all (\<lambda>item. convertible (field item ''name'')) xs
                | _ \<Rightarrow> False"
    and c: "convertible (field r ''orderNumber'')" "convertible (field r ''date'')"
           "convertible (field r ''cashier'')" "convertible (field r ''transferReference'')"
    by (simp_all add: salesDocument_def)
  from v have t: "truthy r"
    by (auto simp: validateReceiptData_def split: if_splits)
  then show nn: "r \<noteq> JUndefined \<and> r \<noteq> JNull" by (simp add: truthy_defined)
  from pm show "\<exists>s. field r ''paymentMethod'' = JStr s"
    by (auto split: jsval.splits)
  from c show "convertible (field r ''date'') \<and> convertible (field r ''cashier'')
         \<and> convertible (field r ''transferReference'')" by simp
  note g = getProp_field [of r] nn
  from v t g c show "truthy (field r ''orderNumber'') \<and> convertible (field r ''orderNumber'')"
    by (auto simp: validateReceiptData_def bind_res_def Let_def split: sum.splits if_splits)
  from v t g show "is_number (field r ''tax'')"
    by (auto simp: validateReceiptData_def bind_res_def Let_def split: sum.splits if_splits)
  from names obtain xs where xs: "field r ''items'' = JArr xs"
    and nm: "\<forall>x \<in> set xs. convertible (field x ''name'')"
    by (auto simp: list_all_iff split: jsval.splits)
  from v t g xs have "validateItems 0 xs = Inr []"
    by (auto simp: validateReceiptData_def bind_res_def Let_def split: sum.splits if_splits)
  from validateItems_valid [OF this] nm xs
  show "\<exists>xs. field r ''items'' = JArr xs \<and>
           (\<forall>x \<in> set xs. x \<noteq> JUndefined \<and> x \<noteq> JNull \<and> is_number (field x ''quantity'')
                           \<and> convertible (field x ''name''))"
    by blast
qed

lemma formatSalesReceipt_ok:
  assumes "salesDocument r"
  shows "\<not> isl (fst (formatSalesReceipt fm pf r))"
proof -
  note f = salesDocument_fields [OF assms]
  note g = getProp_field [of r] f(1)
  from f(4) obtain xs where i: "field r ''items'' = JArr xs"
    and each: "\<forall>x \<in> set xs. x \<noteq> JUndefined \<and> x \<noteq> JNull \<and> is_number (field x ''quantity'')
                               \<and> convertible (field x ''name'')"
    by blast
  from f(5) obtain s where p: "field r ''paymentMethod'' = JStr s" by blast
  from f(6) obtain n where tx: "field r ''tax'' = JNum n"
    by (cases "field r ''tax''") (auto simp: is_number_def)
  have "\<not> isl (concat_res (map (itemLine fm pf) xs))"
    using each by (intro concat_res_ok) (auto simp: itemLine_ok)
  then have items: "\<not> isl (bind_res (getProp r ''items'') (\<lambda>items.
        bind_res (iterate ''receipt.items'' items) (\<lambda>xs. concat_res (map (itemLine fm pf) xs))))"
    using i g by (simp add: bind_res_def iterate_def)
  have tax: "\<not> isl (bind_res (getProp r ''tax'') (\<lambda>tax.
        if truthy tax
        then bind_res (gt_zero pf tax) (\<lambda>positive.
               if positive
               then lineNL (formatLine fm pf (or_else (taxLabel fm) ''IVA:'')
                              (JStr (formatCurrency pf tax)))
               else Inr [])
        else Inr []))"
    using g tx by (simp add: bind_res_def gt_zero_def lineNL_ok formatLine_string_ok)
  have pay: "\<not> isl (bind_res (getProp r ''paymentMethod'') (\<lambda>pm.
        bind_res (formatPaymentMethod pf pm) (\<lambda>paymentMethod.
          lineNL (formatLine fm pf ''Pago:'' (JStr paymentMethod)))))"
    using p g
    by (auto simp: bind_res_def formatPaymentMethod_def lineNL_ok formatLine_string_ok
             split: option.splits)
  have cash: "\<not> isl (bind_res (getProp r ''paymentMethod'') (\<lambda>pm.
      bind_res (getProp r ''tendered'') (\<lambda>tendered.
      bind_res (getProp r ''change'') (\<lambda>change.
        if pm = JStr ''cash'' \<and> truthy tendered
        then concat_res
          [lineNL (formatLine fm pf ''Recibido:'' (JStr (formatCurrency pf tendered))),
           if truthy change
           then lineNL (formatLine fm pf ''Devuelta:'' (JStr (formatCurrency pf change)))
           else Inr []]
        else Inr []))))"
    using g
    by (auto simp del: concat_res.simps simp add: bind_res_def lineNL_ok formatLine_string_ok
             intro!: concat_res_ok)
  have ref: "\<not> isl (bind_res (getProp r ''paymentMethod'') (\<lambda>pm.
      bind_res (getProp r ''transferReference'') (\<lambda>ref.
        if pm = JStr ''transfer'' \<and> truthy ref
        then lineNL (formatLine fm pf ''Referencia:'' ref)
        else Inr [])))"
    using g f(3)
    by (auto simp: bind_res_def lineNL_ok formatLine_ok dest: truthy_defined)
  show ?thesis
    unfolding formatSalesReceipt_def
    apply (rule concat_out_ok)
    using items tax pay cash ref f(1) f(2) f(3)
    apply (simp add: fst_lit fst_quiet fieldLine_ok dateLine_ok optionalLine_ok currencyLine_ok)
    done
qed

lemma formatReceipt_salesDocument_ok:
  "salesDocument r \<Longrightarrow> \<not> isl (fst (formatReceipt fm pf w r ''sales''))"
  using formatSalesReceipt_ok [of r fm pf]
  by (auto simp: formatReceipt_def formatByType_sales Let_def split: prod.splits sum.splits)

text \<open>The test receipt passes \<open>validateReceiptData\<close>, is of the sales schema and
  renders.\<close>

lemma salesDocument_testReceipt: "salesDocument testReceipt"
  by code_simp

lemma formatReceipt_testReceipt_ok:
  "\<not> isl (fst (formatReceipt fm pf w testReceipt ''sales''))"
  by (rule formatReceipt_salesDocument_ok [OF salesDocument_testReceipt])

text \<open>
  Passing \<open>validateReceiptData\<close> with a payment method that is a string is not enough
  for the sales template to render: an order number that is an object with a property
  \<open>toString\<close> is truthy, and \<open>value.toString()\<close> in \<open>formatLine\<close> throws on it.
\<close>

lemma validated_receipt_may_throw:
  "validateReceiptData
     (JObj [(''orderNumber'', JObj [(''toString'', JNum 1)]),
            (''date'', JStr ''2024-08-09T05:04:43.000Z''),
            (''items'', JArr [JObj [(''name'', JStr ''Item''), (''quantity'', JNum 1),
                                    (''price'', JNum 1), (''total'', JNum 1)]]),
            (''subtotal'', JNum 1), (''tax'', JNum 0), (''total'', JNum 1),
            (''paymentMethod'', JStr ''cash'')]) = Inr (True, [])
   \<and> fst (formatReceipt exampleFormatter examplePlatform (exampleWorld [] True 0)
       (JObj [(''orderNumber'', JObj [(''toString'', JNum 1)]),
              (''date'', JStr ''2024-08-09T05:04:43.000Z''),
              (''items'', JArr [JObj [(''name'', JStr ''Item''), (''quantity'', JNum 1),
                                      (''price'', JNum 1), (''total'', JNum 1)]]),
              (''subtotal'', JNum 1), (''tax'', JNum 0), (''total'', JNum 1),
              (''paymentMethod'', JStr ''cash'')]) ''sales'')
     = Inl (Error ''Failed to format receipt: value.toString is not a function'')"
  by code_simp

section \<open>The preview and the flag: auxiliary facts\<close>















lemma destructure_getProp: "getProp v k = Inr x \<Longrightarrow> destructure v k = Inr x"
  by (cases v) (auto simp: destructure_def)

lemma act_invariant:
  "passes \<sigma> = (if isProcessingQueue (svc \<sigma>) then 1 else 0) \<Longrightarrow>
   passes (act \<sigma> a) = (if isProcessingQueue (svc (act \<sigma> a)) then 1 else 0)"
  by (cases a) auto

lemma foldl_act_invariant:
  "passes \<sigma> = (if isProcessingQueue (svc \<sigma>) then 1 else 0) \<Longrightarrow>
   passes (foldl act \<sigma> as) = (if isProcessingQueue (svc (foldl act \<sigma> as)) then 1 else 0)"
proof (induction as arbitrary: \<sigma>)
  case Nil
  then show ?case by simp
next
  case (Cons a as)
  from Cons.IH [OF act_invariant [OF Cons.prems]] show ?case by simp
qed

lemma interleaving_invariant:
  "passes (interleaving t as) = (if isProcessingQueue (svc (interleaving t as)) then 1 else 0)"
  unfolding interleaving_def
  by (rule foldl_act_invariant) (simp add: initialService_def)

lemma processPrintJob_while_processing:
  "isProcessingQueue s \<Longrightarrow> processPrintJob fm pf ws s r pn = printAttempt fm pf (ws 0) s r pn"
proof -
  assume f: "isProcessingQueue s"
  obtain a s1 e1 where att: "printAttempt fm pf (ws 0) s r pn = (a, s1, e1)"
    using prod_cases3 by blast
  from printAttempt_frame [OF att] f have "isProcessingQueue s1" by simp
  with att show ?thesis by (cases a) (simp_all add: processPrintJob_def)
qed


text \<open>A call that prints: the attempt, then the pass started.\<close>

lemma processPrintJob_printed:
  assumes "printAttempt fm pf (ws 0) s r pn = (Inr result, s1, e1)" and "success result"
  shows "processPrintJob fm pf ws s r pn =
           (Inr result, fst (startPass s1), e1 @ snd (startPass s1))"
proof (cases "isProcessingQueue s1")
  case True
  with assms show ?thesis by (simp add: processPrintJob_def startPass_def)
next
  case False
  with assms show ?thesis by (simp add: processPrintJob_def split: prod.splits)
qed

lemma processPrintJob_not_printed:
  assumes "printAttempt fm pf (ws 0) s r pn = (a, s1, e1)"
    and "\<not> (\<exists>result. a = Inr result \<and> success result)"
  shows "processPrintJob fm pf ws s r pn = (a, s1, e1)"
  using assms by (cases a) (simp_all add: processPrintJob_def)


text \<open>The world of the examples whose printer is online prints the test receipt.\<close>

lemma online_world_prints:
  "\<exists>printers target bytes fl.
     availablePrinters (exampleWorld [rongta ''online''] True t) = Inr printers \<and>
     targetPrinter printers None = Some target \<and>
     status target = ''online'' \<and>
     formatReceipt fm pf (exampleWorld [rongta ''online''] True t) testReceipt ''sales''
       = (Inr bytes, fl) \<and>
     printOutcome (exampleWorld [rongta ''online''] True t) bytes (name target) = None"
proof -
  let ?w = "exampleWorld [rongta ''online''] True t"
  let ?f = "formatReceipt fm pf ?w testReceipt ''sales''"
  have h1: "availablePrinters ?w = Inr [rongta ''online'']"
    by (simp add: exampleWorld_def)
  have h2: "targetPrinter [rongta ''online''] None = Some (rongta ''online'')"
    by (simp add: targetPrinter_def rongta_def)
  have h3: "status (rongta ''online'') = ''online''"
    by (simp add: rongta_def)
  have h4: "?f = (Inr (projr (fst ?f)), snd ?f)"
    using formatReceipt_testReceipt_ok [of fm pf ?w] by (cases ?f) auto
  have h5: "printOutcome ?w (projr (fst ?f)) (name (rongta ''online'')) = None"
    by (simp add: exampleWorld_def)
  show ?thesis
    by (intro exI conjI) (rule h1, rule h2, rule h3, rule h4, rule h5)
qed

section \<open>Queueing for a printer that is not online\<close>

text \<open>
  C4. A call of \<open>processPrintJob\<close> whose resolved printer is not online, on a service of
  capacity 10: with fewer than 10 jobs queued, the job is appended, the result is the
  queued one (\<open>success: false\<close>, \<open>queued: true\<close>) and its message gives the new length of
  the queue as the position; with 10 jobs queued, the call throws
  \<open>Printer offline and queue is full\<close> and the service is unchanged.
\<close>

theorem enqueue_when_offline:
  assumes "availablePrinters (ws 0) = Inr printers"
    and "targetPrinter printers pn = Some target"
    and "status target \<noteq> ''online''"
    and "maxQueueSize s = 10"
  shows "(length (printQueue s) < 10 \<longrightarrow>
            processPrintJob fm pf ws s r pn =
              (Inr \<lparr>success = False,
                    message = ''Printer offline, queued for printing. Queue position: ''
                              @ string_of_nat (length (printQueue s) + 1),
                    printerId = name target, queued = Some True, result_timestamp = None\<rparr>,
               s\<lparr>printQueue := printQueue s @
                    [\<lparr>receipt = r, printerName = pn, timestamp = dateNow (ws 0)\<rparr>]\<rparr>,
               [GetAvailablePrinters,
                Log Warn (''Printer offline, added to queue. Queue length: ''
                          @ string_of_nat (length (printQueue s) + 1))]))
       \<and> (length (printQueue s) = 10 \<longrightarrow>
            processPrintJob fm pf ws s r pn =
              (Inl (Error ''Printer offline and queue is full''), s,
               [GetAvailablePrinters, Log Err ''Print job failed:'']))"
  using assms by (simp add: processPrintJob_def printAttempt_def Let_def)

text \<open>The tenth job is queued at position 10; the eleventh is refused.\<close>

theorem enqueue_when_offline_witness:
  "availablePrinters (exampleWorld [rongta ''offline''] True 7) = Inr [rongta ''offline'']
   \<and> targetPrinter [rongta ''offline''] None = Some (rongta ''offline'')
   \<and> status (rongta ''offline'') \<noteq> ''online''
   \<and> maxQueueSize (queueOf 9) = 10 \<and> length (printQueue (queueOf 9)) < 10
   \<and> fst (processPrintJob exampleFormatter examplePlatform
             (\<lambda>k. exampleWorld [rongta ''offline''] True 7) (queueOf 9) testReceipt None)
       = Inr \<lparr>success = False,
              message = ''Printer offline, queued for printing. Queue position: 10'',
              printerId = ''Rongta'', queued = Some True, result_timestamp = None\<rparr>
   \<and> maxQueueSize (queueOf 10) = 10 \<and> length (printQueue (queueOf 10)) = 10
   \<and> processPrintJob exampleFormatter examplePlatform
         (\<lambda>k. exampleWorld [rongta ''offline''] True 7) (queueOf 10) testReceipt None
       = (Inl (Error ''Printer offline and queue is full''), queueOf 10,
          [GetAvailablePrinters, Log Err ''Print job failed:''])"
proof -
  let ?ws = "\<lambda>k::nat. exampleWorld [rongta ''offline''] True 7"
  have h1: "availablePrinters (?ws 0) = Inr [rongta ''offline'']"
    by (simp add: exampleWorld_def)
  have h2: "targetPrinter [rongta ''offline''] None = Some (rongta ''offline'')"
    by (simp add: targetPrinter_def rongta_def)
  have h3: "status (rongta ''offline'') \<noteq> ''online''"
    by (simp add: rongta_def)
  have h4: "maxQueueSize (queueOf n) = 10" for n
    by (simp add: queueOf_def initialService_def)
  have len: "length (printQueue (queueOf n)) = n" for n
    by (simp add: queueOf_def)
  have ten: "string_of_nat 10 = ''10''"
    by (simp add: string_of_nat.simps digit_char_def)
  have nm: "name (rongta ''offline'') = ''Rongta''"
    by (simp add: rongta_def)
  from enqueue_when_offline [OF h1 h2 h3 h4, of 9 exampleFormatter examplePlatform testReceipt]
       enqueue_when_offline [OF h1 h2 h3 h4, of 10 exampleFormatter examplePlatform testReceipt]
  show ?thesis
    using h1 h2 h3 h4 by (simp add: len ten nm)
qed


section \<open>A submission that the spooler rejects\<close>

text \<open>
  C5. A call of \<open>processPrintJob\<close> whose resolved printer is online, whose receipt
  renders and whose submission to the spooler throws: the exception reaches the caller, the
  service is what it was before the call (nothing is queued, \<open>lastPrintTime\<close> keeps its
  value, no pass is started), and the spooler has been asked once.
\<close>

theorem spooler_failure_reported:
  assumes "availablePrinters (ws 0) = Inr printers"
    and "targetPrinter printers pn = Some target"
    and "status target = ''online''"
    and "formatReceipt fm pf (ws 0) r ''sales'' = (Inr bytes, fl)"
    and "printOutcome (ws 0) bytes (name target) = Some e"
  shows "processPrintJob fm pf ws s r pn =
           (Inl e, s,
            GetAvailablePrinters # fl @ [Print bytes (name target), Log Err ''Print job failed:''])"
  using assms by (simp add: processPrintJob_def printAttempt_def)


theorem spooler_failure_reported_witness:
  "availablePrinters (exampleWorld [rongta ''online''] False 7) = Inr [rongta ''online'']
   \<and> targetPrinter [rongta ''online''] None = Some (rongta ''online'')
   \<and> status (rongta ''online'') = ''online''
   \<and> printOutcome (exampleWorld [rongta ''online''] False 7)
        (projr (fst (formatReceipt exampleFormatter examplePlatform
                       (exampleWorld [rongta ''online''] False 7) testReceipt ''sales'')))
        (name (rongta ''online'')) = Some (Error ''Print command failed'')
   \<and> fst (processPrintJob exampleFormatter examplePlatform
             (\<lambda>k. exampleWorld [rongta ''online''] False 7) (queueOf 2) testReceipt None)
       = Inl (Error ''Print command failed'')
   \<and> fst (snd (processPrintJob exampleFormatter examplePlatform
             (\<lambda>k. exampleWorld [rongta ''online''] False 7) (queueOf 2) testReceipt None))
       = queueOf 2"
proof -
  let ?ws = "\<lambda>k::nat. exampleWorld [rongta ''online''] False 7"
  let ?f = "formatReceipt exampleFormatter examplePlatform (?ws 0) testReceipt ''sales''"
  have h1: "availablePrinters (?ws 0) = Inr [rongta ''online'']"
    by (simp add: exampleWorld_def)
  have h2: "targetPrinter [rongta ''online''] None = Some (rongta ''online'')"
    by (simp add: targetPrinter_def rongta_def)
  have h3: "status (rongta ''online'') = ''online''"
    by (simp add: rongta_def)
  have h4: "?f = (Inr (projr (fst ?f)), snd ?f)"
    using formatReceipt_testReceipt_ok [of exampleFormatter examplePlatform "?ws 0"]
    by (cases ?f) auto
  have h5: "printOutcome (?ws 0) (projr (fst ?f)) (name (rongta ''online''))
              = Some (Error ''Print command failed'')"
    by (simp add: exampleWorld_def)
  from spooler_failure_reported [OF h1 h2 h3 h4 h5, of "queueOf 2"]
  show ?thesis
    using h1 h2 h3 h5 by simp
qed


section \<open>The time of the last print\<close>

text \<open>
  C9, as the claim states it, fails: a call of \<open>processPrintJob\<close> that prints while two
  jobs wait and no pass runs returns with the flag \<open>isProcessingQueue\<close> set, which was
  clear before the call, and with the oldest job taken out of the queue by the pass that
  line 498 has started.
\<close>

theorem flag_set_on_return_counterexample:
  "\<not> isProcessingQueue (queueOf 2)
   \<and> printQueue (queueOf 2) = [queuedJob 0, queuedJob 1]
   \<and> (\<exists>result. fst (processPrintJob exampleFormatter examplePlatform
                    (\<lambda>k. exampleWorld [rongta ''online''] True 7) (queueOf 2) testReceipt None)
                = Inr result \<and> success result)
   \<and> isProcessingQueue (fst (snd (processPrintJob exampleFormatter examplePlatform
                    (\<lambda>k. exampleWorld [rongta ''online''] True 7) (queueOf 2) testReceipt None)))
   \<and> printQueue (fst (snd (processPrintJob exampleFormatter examplePlatform
                    (\<lambda>k. exampleWorld [rongta ''online''] True 7) (queueOf 2) testReceipt None)))
       = [queuedJob 1]"
proof -
  let ?ws = "\<lambda>k::nat. exampleWorld [rongta ''online''] True 7"
  let ?att = "printAttempt exampleFormatter examplePlatform (?ws 0) (queueOf 2) testReceipt None"
  have idle: "\<not> isProcessingQueue (queueOf 2)"
    by (simp add: queueOf_def initialService_def)
  have q: "printQueue (queueOf 2) = [queuedJob 0, queuedJob 1]"
    by code_simp
  have "\<exists>result. fst ?att = Inr result \<and> success result"
    unfolding printAttempt_printed_iff by (rule online_world_prints)
  then obtain result where a: "fst ?att = Inr result" and ok: "success result" by blast
  have att: "?att = (Inr result, fst (snd ?att), snd (snd ?att))"
    using a by (cases ?att) simp
  from printAttempt_printed_state [OF att ok]
  have s1: "fst (snd ?att) = (queueOf 2)\<lparr>lastPrintTime := Some (nowISO (?ws 0))\<rparr>" by simp
  note job = processPrintJob_printed [where ws = ?ws, OF att ok]
  show ?thesis
    using idle q ok by (simp add: job s1 startPass_flag startPass_queue)
qed

text \<open>
  C9, amended. For a call of \<open>processPrintJob\<close>, as the service is when the call
  returns: \<open>maxQueueSize\<close> and \<open>startTime\<close> are what they were; the result is the printed
  one exactly when the target is online, the receipt renders and the spooler accepts the
  submission. In that case \<open>lastPrintTime\<close> is the clock reading of the call, which the
  result carries as well; the flag is set if it was set or if a job is waiting, a pass
  having been started then; and the queue has lost its oldest job to that pass, or is what
  it was when a pass was running already. With every other result, queued or thrown,
  \<open>lastPrintTime\<close> and the flag are unchanged.
\<close>

theorem processPrintJob_effect:
  assumes "processPrintJob fm pf ws s r pn = (res, s', evs)"
  shows "(maxQueueSize s' = maxQueueSize s \<and> startTime s' = startTime s)
    \<and> ((\<exists>result. res = Inr result \<and> success result) =
         (\<exists>printers target bytes fl.
            availablePrinters (ws 0) = Inr printers \<and> targetPrinter printers pn = Some target \<and>
            status target = ''online'' \<and>
            formatReceipt fm pf (ws 0) r ''sales'' = (Inr bytes, fl) \<and>
            printOutcome (ws 0) bytes (name target) = None))
    \<and> ((\<exists>result. res = Inr result \<and> success result) \<longrightarrow>
           lastPrintTime s' = Some (nowISO (ws 0)) \<and>
           (\<exists>result. res = Inr result \<and> result_timestamp result = Some (nowISO (ws 0))) \<and>
           isProcessingQueue s' = (isProcessingQueue s \<or> printQueue s \<noteq> []) \<and>
           printQueue s' = (if isProcessingQueue s then printQueue s else tl (printQueue s)))
    \<and> (\<not> (\<exists>result. res = Inr result \<and> success result) \<longrightarrow>
           lastPrintTime s' = lastPrintTime s \<and> isProcessingQueue s' = isProcessingQueue s)"
proof -
  obtain a s1 e1 where att: "printAttempt fm pf (ws 0) s r pn = (a, s1, e1)"
    using prod_cases3 by blast
  note fr = printAttempt_frame [OF att]
  have a: "a = res"
    using processPrintJob_result [of fm pf ws s r pn] assms att by simp
  have printed: "(\<exists>result. res = Inr result \<and> success result) =
         (\<exists>printers target bytes fl.
            availablePrinters (ws 0) = Inr printers \<and> targetPrinter printers pn = Some target \<and>
            status target = ''online'' \<and>
            formatReceipt fm pf (ws 0) r ''sales'' = (Inr bytes, fl) \<and>
            printOutcome (ws 0) bytes (name target) = None)"
    using printAttempt_printed_iff [of fm pf "ws 0" s r pn] att a by simp
  have updated: "(\<exists>result. res = Inr result \<and> success result) \<longrightarrow>
           maxQueueSize s' = maxQueueSize s \<and> startTime s' = startTime s \<and>
           lastPrintTime s' = Some (nowISO (ws 0)) \<and>
           (\<exists>result. res = Inr result \<and> result_timestamp result = Some (nowISO (ws 0))) \<and>
           isProcessingQueue s' = (isProcessingQueue s \<or> printQueue s \<noteq> []) \<and>
           printQueue s' = (if isProcessingQueue s then printQueue s else tl (printQueue s))"
  proof
    assume "\<exists>result. res = Inr result \<and> success result"
    then obtain result where res: "res = Inr result" and ok: "success result" by blast
    note att' = att [unfolded a res]
    from printAttempt_printed_state [OF att' ok]
    have s1: "s1 = s\<lparr>lastPrintTime := Some (nowISO (ws 0))\<rparr>"
      and ts: "result_timestamp result = Some (nowISO (ws 0))" by simp_all
    from processPrintJob_printed [where ws = ws, OF att' ok] assms
    have s': "s' = fst (startPass s1)" by simp
    show "maxQueueSize s' = maxQueueSize s \<and> startTime s' = startTime s \<and>
           lastPrintTime s' = Some (nowISO (ws 0)) \<and>
           (\<exists>result. res = Inr result \<and> result_timestamp result = Some (nowISO (ws 0))) \<and>
           isProcessingQueue s' = (isProcessingQueue s \<or> printQueue s \<noteq> []) \<and>
           printQueue s' = (if isProcessingQueue s then printQueue s else tl (printQueue s))"
      using res ts
      by (simp add: s' startPass_frame startPass_flag startPass_queue s1)
  qed
  have kept: "\<not> (\<exists>result. res = Inr result \<and> success result) \<longrightarrow>
           maxQueueSize s' = maxQueueSize s \<and> startTime s' = startTime s \<and>
           lastPrintTime s' = lastPrintTime s \<and> isProcessingQueue s' = isProcessingQueue s"
  proof
    assume no: "\<not> (\<exists>result. res = Inr result \<and> success result)"
    from processPrintJob_not_printed [where ws = ws, OF att no [folded a]] assms
    have s': "s' = s1" by simp
    have "lastPrintTime s1 = lastPrintTime s"
    proof (cases a)
      case (Inl e)
      with printAttempt_failure_state att show ?thesis by blast
    next
      case (Inr result)
      with no a have "\<not> success result" by simp
      from printAttempt_queued_state [OF att [unfolded Inr] this] show ?thesis by simp
    qed
    with s' fr show "maxQueueSize s' = maxQueueSize s \<and> startTime s' = startTime s \<and>
           lastPrintTime s' = lastPrintTime s \<and> isProcessingQueue s' = isProcessingQueue s"
      by simp
  qed
  from printed updated kept show ?thesis by blast
qed

theorem processPrintJob_effect_witness:
  "(\<exists>result. fst (processPrintJob exampleFormatter examplePlatform
                    (\<lambda>k. exampleWorld [rongta ''online''] True 7) (queueOf 2) testReceipt None)
                = Inr result \<and> success result)
   \<and> lastPrintTime (fst (snd (processPrintJob exampleFormatter examplePlatform
                    (\<lambda>k. exampleWorld [rongta ''online''] True 7) (queueOf 2) testReceipt None)))
       = Some ''T7''
   \<and> isProcessingQueue (fst (snd (processPrintJob exampleFormatter examplePlatform
                    (\<lambda>k. exampleWorld [rongta ''online''] True 7) (queueOf 2) testReceipt None)))
   \<and> \<not> (\<exists>result. fst (processPrintJob exampleFormatter examplePlatform
                    (\<lambda>k. exampleWorld [rongta ''offline''] True 7) (queueOf 0) testReceipt None)
                = Inr result \<and> success result)
   \<and> lastPrintTime (fst (snd (processPrintJob exampleFormatter examplePlatform
                    (\<lambda>k. exampleWorld [rongta ''offline''] True 7) (queueOf 0) testReceipt None)))
       = lastPrintTime (queueOf 0)"
proof -
  let ?on = "\<lambda>k::nat. exampleWorld [rongta ''online''] True 7"
  let ?off = "\<lambda>k::nat. exampleWorld [rongta ''offline''] True 7"
  let ?a = "processPrintJob exampleFormatter examplePlatform ?on (queueOf 2) testReceipt None"
  let ?b = "processPrintJob exampleFormatter examplePlatform ?off (queueOf 0) testReceipt None"
  have pa: "?a = (fst ?a, fst (snd ?a), snd (snd ?a))" by simp
  have pb: "?b = (fst ?b, fst (snd ?b), snd (snd ?b))" by simp
  note A = processPrintJob_effect [OF pa]
  note B = processPrintJob_effect [OF pb]
  have a: "\<exists>result. fst ?a = Inr result \<and> success result"
    using A [THEN conjunct2, THEN conjunct1]
          online_world_prints [of 7 exampleFormatter examplePlatform]
    by simp
  have "\<not> (\<exists>printers target bytes fl.
          availablePrinters (?off 0) = Inr printers \<and> targetPrinter printers None = Some target \<and>
          status target = ''online'' \<and>
          formatReceipt exampleFormatter examplePlatform (?off 0) testReceipt ''sales''
            = (Inr bytes, fl) \<and>
          printOutcome (?off 0) bytes (name target) = None)"
    by (simp add: exampleWorld_def targetPrinter_def rongta_def)
  with B [THEN conjunct2, THEN conjunct1]
  have b: "\<not> (\<exists>result. fst ?b = Inr result \<and> success result)" by simp
  have e: "printQueue (queueOf 2) \<noteq> []"
    by (simp add: queueOf_def)
  have t: "nowISO (?on 0) = ''T7''"
    by (simp add: exampleWorld_def string_of_nat.simps digit_char_def)
  note A3 = A [THEN conjunct2, THEN conjunct2, THEN conjunct1, THEN mp, OF a]
  note B4 = B [THEN conjunct2, THEN conjunct2, THEN conjunct2, THEN mp, OF b]
  have a1: "lastPrintTime (fst (snd ?a)) = Some ''T7''"
    using A3 [THEN conjunct1] t by simp
  have a2: "isProcessingQueue (fst (snd ?a))"
    using A3 [THEN conjunct2, THEN conjunct2, THEN conjunct1] e by simp
  have b1: "lastPrintTime (fst (snd ?b)) = lastPrintTime (queueOf 0)"
    using B4 [THEN conjunct1] .
  show ?thesis
    by (intro conjI) (rule a, rule a1, rule a2, rule b, rule b1)
qed

section \<open>The response to a queued request\<close>

text \<open>
  C10. \<open>POST /print\<close> with a valid receipt, a default or first printer that is not online
  and room in the queue: the response has status 200 and its body is the queued result,
  with \<open>success\<close> false and \<open>queued\<close> true.
\<close>

theorem queued_response_success_false:
  assumes "getProp reqBody ''receipt'' = Inr r"
    and "validateReceiptData r = Inr (True, errors)"
    and "availablePrinters (ws 0) = Inr printers"
    and "targetPrinter printers None = Some target"
    and "status target \<noteq> ''online''"
    and "length (printQueue s) < maxQueueSize s"
  shows "fst (printRoute fm pf ws now s reqBody) =
           \<lparr>statusCode = 200,
            responseBody = PrintResponse
              \<lparr>success = False,
               message = ''Printer offline, queued for printing. Queue position: ''
                         @ string_of_nat (length (printQueue s) + 1),
               printerId = name target, queued = Some True, result_timestamp = Some now\<rparr>\<rparr>"
  using assms
  by (simp add: printRoute_def bind_res_def destructure_getProp processPrintJob_def
        printAttempt_def Let_def)

theorem queued_response_success_false_witness:
  "getProp (JObj [(''receipt'', testReceipt)]) ''receipt'' = Inr testReceipt
   \<and> validateReceiptData testReceipt = Inr (True, [])
   \<and> availablePrinters (exampleWorld [rongta ''offline''] True 7) = Inr [rongta ''offline'']
   \<and> targetPrinter [rongta ''offline''] None = Some (rongta ''offline'')
   \<and> status (rongta ''offline'') \<noteq> ''online''
   \<and> length (printQueue (queueOf 0)) < maxQueueSize (queueOf 0)
   \<and> fst (printRoute exampleFormatter examplePlatform
             (\<lambda>k. exampleWorld [rongta ''offline''] True 7) ''T8'' (queueOf 0)
             (JObj [(''receipt'', testReceipt)])) =
        \<lparr>statusCode = 200,
         responseBody = PrintResponse
           \<lparr>success = False,
            message = ''Printer offline, queued for printing. Queue position: 1'',
            printerId = ''Rongta'', queued = Some True, result_timestamp = Some ''T8''\<rparr>\<rparr>"
proof -
  let ?ws = "\<lambda>k::nat. exampleWorld [rongta ''offline''] True 7"
  have h1: "getProp (JObj [(''receipt'', testReceipt)]) ''receipt'' = Inr testReceipt"
    by simp
  have h3: "availablePrinters (?ws 0) = Inr [rongta ''offline'']"
    by (simp add: exampleWorld_def)
  have h4: "targetPrinter [rongta ''offline''] None = Some (rongta ''offline'')"
    by (simp add: targetPrinter_def rongta_def)
  have h5: "status (rongta ''offline'') \<noteq> ''online''"
    by (simp add: rongta_def)
  have h6: "length (printQueue (queueOf 0)) < maxQueueSize (queueOf 0)"
    by (simp add: queueOf_def initialService_def)
  have len: "length (printQueue (queueOf 0)) = 0"
    by (simp add: queueOf_def)
  have one: "string_of_nat (Suc 0) = ''1''"
    by (simp add: string_of_nat.simps digit_char_def)
  have nm: "name (rongta ''offline'') = ''Rongta''"
    by (simp add: rongta_def)
  from queued_response_success_false [OF h1 validate_testReceipt h3 h4 h5 h6,
         of exampleFormatter examplePlatform "''T8''"]
  show ?thesis
    using h1 validate_testReceipt h3 h4 h5 h6 by (simp add: len one nm)
qed


section \<open>A printer name that matches no printer\<close>

text \<open>
  C3, as the claim states it, fails: a request that names a printer missing from a
  snapshot holding the printer Rongta throws \<open>No printers available\<close>, the very failure
  of a request on an empty snapshot.
\<close>

theorem printer_not_found_counterexample:
  "fst (processPrintJob exampleFormatter examplePlatform
          (\<lambda>k. exampleWorld [rongta ''online''] True 7) (queueOf 0) testReceipt (Some ''Ghost''))
     = Inl (Error ''No printers available'')
   \<and> fst (processPrintJob exampleFormatter examplePlatform
          (\<lambda>k. exampleWorld [] True 7) (queueOf 0) testReceipt (Some ''Ghost''))
     = Inl (Error ''No printers available'')"
  by (simp add: processPrintJob_def printAttempt_def targetPrinter_def exampleWorld_def rongta_def)

text \<open>
  C3, amended. With the snapshot \<open>printers\<close>: a call that names a non-empty printer name
  matching no entry throws \<open>No printers available\<close>, as every call on an empty snapshot
  does, and leaves the service unchanged; without a name the target is the first entry
  flagged default and, when no entry is flagged, the first entry; the empty name counts
  as no name.
\<close>

theorem unmatched_name_no_printers_available:
  assumes "availablePrinters (ws 0) = Inr printers"
  shows "(n \<noteq> [] \<and> n \<notin> name ` set printers \<longrightarrow>
            processPrintJob fm pf ws s r (Some n) =
              (Inl (Error ''No printers available''), s,
               [GetAvailablePrinters, Log Err ''Print job failed:'']))
       \<and> (printers = [] \<longrightarrow>
            processPrintJob fm pf ws s r pn =
              (Inl (Error ''No printers available''), s,
               [GetAvailablePrinters, Log Err ''Print job failed:'']))
       \<and> (\<forall>ps1 p ps2. printers = ps1 @ p # ps2 \<and> isDefault p \<and> (\<forall>q \<in> set ps1. \<not> isDefault q)
            \<longrightarrow> targetPrinter printers None = Some p)
       \<and> (\<forall>p ps. printers = p # ps \<and> (\<forall>q \<in> set printers. \<not> isDefault q)
            \<longrightarrow> targetPrinter printers None = Some p)
       \<and> targetPrinter printers (Some []) = targetPrinter printers None"
proof -
  have a: "n \<noteq> [] \<and> n \<notin> name ` set printers \<longrightarrow>
            processPrintJob fm pf ws s r (Some n) =
              (Inl (Error ''No printers available''), s,
               [GetAvailablePrinters, Log Err ''Print job failed:''])"
    using assms by (simp add: processPrintJob_def printAttempt_def targetPrinter_unmatched)
  have b: "printers = [] \<longrightarrow>
            processPrintJob fm pf ws s r pn =
              (Inl (Error ''No printers available''), s,
               [GetAvailablePrinters, Log Err ''Print job failed:''])"
    using assms
    by (auto simp: processPrintJob_def printAttempt_def targetPrinter_def split: option.splits)
  have c: "\<forall>ps1 p ps2. printers = ps1 @ p # ps2 \<and> isDefault p \<and> (\<forall>q \<in> set ps1. \<not> isDefault q)
            \<longrightarrow> targetPrinter printers None = Some p"
    by (auto simp: targetPrinter_def find_first)
  have d: "\<forall>p ps. printers = p # ps \<and> (\<forall>q \<in> set printers. \<not> isDefault q)
            \<longrightarrow> targetPrinter printers None = Some p"
  proof (intro allI impI)
    fix p ps
    assume h: "printers = p # ps \<and> (\<forall>q \<in> set printers. \<not> isDefault q)"
    then have "find isDefault printers = None"
      by (simp add: find_None_iff)
    with h show "targetPrinter printers None = Some p"
      by (simp add: targetPrinter_def)
  qed
  have e: "targetPrinter printers (Some []) = targetPrinter printers None"
    by (simp add: targetPrinter_def)
  from a b c d e show ?thesis by blast
qed

theorem unmatched_name_no_printers_available_witness:
  "availablePrinters (exampleWorld [rongta ''offline'', (rongta ''online'')\<lparr>name := ''Epson''\<rparr>] True 7)
     = Inr [rongta ''offline'', (rongta ''online'')\<lparr>name := ''Epson''\<rparr>]
   \<and> ''Ghost'' \<noteq> [] \<and> ''Ghost'' \<notin> name ` set [rongta ''offline'', (rongta ''online'')\<lparr>name := ''Epson''\<rparr>]
   \<and> processPrintJob exampleFormatter examplePlatform
        (\<lambda>k. exampleWorld [rongta ''offline'', (rongta ''online'')\<lparr>name := ''Epson''\<rparr>] True 7)
        (queueOf 3) testReceipt (Some ''Ghost'')
      = (Inl (Error ''No printers available''), queueOf 3,
         [GetAvailablePrinters, Log Err ''Print job failed:''])
   \<and> isDefault (rongta ''offline'')
   \<and> targetPrinter [rongta ''offline'', (rongta ''online'')\<lparr>name := ''Epson''\<rparr>] None
      = Some (rongta ''offline'')"
proof -
  let ?ps = "[rongta ''offline'', (rongta ''online'')\<lparr>name := ''Epson''\<rparr>]"
  let ?ws = "\<lambda>k::nat. exampleWorld ?ps True 7"
  have h: "availablePrinters (?ws 0) = Inr ?ps"
    by (simp add: exampleWorld_def)
  have g: "''Ghost'' \<noteq> [] \<and> ''Ghost'' \<notin> name ` set ?ps"
    by (simp add: rongta_def)
  have d: "isDefault (rongta ''offline'')"
    by (simp add: rongta_def)
  have sp: "?ps = [] @ rongta ''offline'' # [(rongta ''online'')\<lparr>name := ''Epson''\<rparr>]
            \<and> isDefault (rongta ''offline'') \<and> (\<forall>q \<in> set []. \<not> isDefault q)"
    using d by simp
  note T = unmatched_name_no_printers_available [OF h, of "''Ghost''" exampleFormatter
             examplePlatform "queueOf 3" testReceipt None]
  have t1: "processPrintJob exampleFormatter examplePlatform ?ws (queueOf 3) testReceipt
              (Some ''Ghost'')
            = (Inl (Error ''No printers available''), queueOf 3,
               [GetAvailablePrinters, Log Err ''Print job failed:''])"
    using T [THEN conjunct1, THEN mp, OF g] .
  have t2: "targetPrinter ?ps None = Some (rongta ''offline'')"
    using T [THEN conjunct2, THEN conjunct2, THEN conjunct1, THEN spec, THEN spec, THEN spec,
             THEN mp, OF sp] .
  show ?thesis
    using h g d t1 t2 by (intro conjI) simp_all
qed

section \<open>A pass over the queue while the printer stays offline\<close>

text \<open>
  C1. The queue holds two jobs and the printer is offline. The pass attempts the oldest job
  and stops, and the job is back in front; but the queue afterwards is not the queue
  before: it ends with a second entry for the oldest job, stamped with the time of the
  attempt.
\<close>

theorem requeue_duplicates_job:
  "printQueue (queueOf 2) = [queuedJob 0, queuedJob 1]
   \<and> printQueue (fst (processQueue exampleFormatter examplePlatform
                        (\<lambda>k. exampleWorld [rongta ''offline''] True 7) (queueOf 2)))
       = [queuedJob 0, queuedJob 1, queuedJob 7]"
proof -
  let ?ws = "\<lambda>k::nat. exampleWorld [rongta ''offline''] True 7"
  have h1: "\<not> isProcessingQueue (queueOf n)" for n
    by (simp add: queueOf_def initialService_def)
  have h2: "printQueue (queueOf 2) = queuedJob 0 # [queuedJob 1]"
    by code_simp
  have h3: "availablePrinters (?ws 0) = Inr [rongta ''offline'']"
    by (simp add: exampleWorld_def)
  have h4: "targetPrinter [rongta ''offline''] (printerName (queuedJob 0)) = Some (rongta ''offline'')"
    by (simp add: targetPrinter_def rongta_def queuedJob_def)
  have h5: "status (rongta ''offline'') \<noteq> ''online''"
    by (simp add: rongta_def)
  have h6: "length [queuedJob 1] < maxQueueSize (queueOf 2)"
    by (simp add: queueOf_def initialService_def)
  have copy: "\<lparr>receipt = receipt (queuedJob 0), printerName = printerName (queuedJob 0),
               timestamp = dateNow (?ws 0)\<rparr> = queuedJob 7"
    by (simp add: queuedJob_def exampleWorld_def)
  from pass_requeues_with_copy [where ws = ?ws, OF h1 h2 h3 h4 h5 h6, of exampleFormatter
         examplePlatform]
  show ?thesis
    using h2 by (simp add: copy)
qed

text \<open>
  C2. Ten requests while the printer is offline fill the queue to its capacity of 10; the
  next tick of the printer detection runs a pass, after which the queue holds 11 entries.
\<close>

theorem queue_exceeds_capacity:
  "fold (\<lambda>t s. fst (snd (processPrintJob exampleFormatter examplePlatform
                            (\<lambda>k. exampleWorld [rongta ''offline''] True t) s testReceipt None)))
        [0..<10] (initialService 0) = queueOf 10
   \<and> maxQueueSize (queueOf 10) = 10
   \<and> length (printQueue (queueOf 10)) = 10
   \<and> length (printQueue (fst (printerDetectionTick exampleFormatter examplePlatform True
                        (\<lambda>k. exampleWorld [rongta ''offline''] True 10) (queueOf 10)))) = 11"
proof -
  let ?ws = "\<lambda>k::nat. exampleWorld [rongta ''offline''] True 10"
  have step: "fst (snd (processPrintJob exampleFormatter examplePlatform
                          (\<lambda>k. exampleWorld [rongta ''offline''] True t) (queueOf t) testReceipt None))
              = queueOf (Suc t)" if "t < 10" for t
    using that
    by (simp add: processPrintJob_def printAttempt_def exampleWorld_def targetPrinter_def
          rongta_def queueOf_def initialService_def queuedJob_def)
  have fold_steps: "n \<le> 10 \<Longrightarrow>
      fold (\<lambda>t s. fst (snd (processPrintJob exampleFormatter examplePlatform
                            (\<lambda>k. exampleWorld [rongta ''offline''] True t) s testReceipt None)))
        [0..<n] (initialService 0) = queueOf n" for n
  proof (induction n)
    case 0
    show ?case by (simp add: queueOf_def initialService_def)
  next
    case (Suc n)
    then show ?case using step [of n] by simp
  qed
  have h1: "\<not> isProcessingQueue (queueOf n)" for n
    by (simp add: queueOf_def initialService_def)
  have h2: "printQueue (queueOf 10) = queuedJob 0 # map queuedJob [1..<10]"
    by (simp add: queueOf_def upt_conv_Cons)
  have h3: "availablePrinters (?ws 0) = Inr [rongta ''offline'']"
    by (simp add: exampleWorld_def)
  have h4: "targetPrinter [rongta ''offline''] (printerName (queuedJob 0)) = Some (rongta ''offline'')"
    by (simp add: targetPrinter_def rongta_def queuedJob_def)
  have h5: "status (rongta ''offline'') \<noteq> ''online''"
    by (simp add: rongta_def)
  have cap: "maxQueueSize (queueOf 10) = 10"
    by (simp add: queueOf_def initialService_def)
  have h6: "length (map queuedJob [1..<10]) < maxQueueSize (queueOf 10)"
    by (simp add: cap)
  have len: "length (printQueue (queueOf 10)) = 10"
    by (simp add: queueOf_def)
  from pass_requeues_with_copy [where ws = ?ws, OF h1 h2 h3 h4 h5 h6, of exampleFormatter
         examplePlatform]
  have "length (printQueue (fst (processQueue exampleFormatter examplePlatform ?ws
                                   (queueOf 10)))) = 11"
    by simp
  then show ?thesis
    using fold_steps [of 10] cap len by (simp add: printerDetectionTick_def)
qed


section \<open>An unknown receipt type\<close>




section \<open>The preview\<close>




section \<open>One pass at a time\<close>

text \<open>
  C7. Along every interleaving of the blocks that touch the service, at most one pass is
  between line 520 and line 541, and the flag is set exactly while one is. A call of
  \<open>processQueue\<close> that finds the flag set returns at once and changes nothing; so the
  trigger after a successful print and the timer start no pass then. A pass that was
  entered leaves the flag clear, whichever way its loop ended, and the flag stays set
  while the loop runs.
\<close>

theorem one_pass_at_a_time:
  "passes (interleaving t as) \<le> 1
   \<and> (isProcessingQueue (svc (interleaving t as)) = (passes (interleaving t as) = 1))
   \<and> (isProcessingQueue s \<longrightarrow> processQueue fm pf ws s = (s, []))
   \<and> (isProcessingQueue s \<longrightarrow>
         processPrintJob fm pf ws s r pn = printAttempt fm pf (ws 0) s r pn)
   \<and> (isProcessingQueue s \<longrightarrow> printerDetectionTick fm pf True ws s = (s, []))
   \<and> (\<not> isProcessingQueue s \<longrightarrow> \<not> isProcessingQueue (fst (processQueue fm pf ws s)))
   \<and> (isProcessingQueue s \<longrightarrow> isProcessingQueue (fst (drain_loop fm pf ws k s)))"
proof -
  have a: "passes (interleaving t as) \<le> 1
           \<and> (isProcessingQueue (svc (interleaving t as)) = (passes (interleaving t as) = 1))"
    using interleaving_invariant [of t as] by (simp split: if_splits)
  have b: "isProcessingQueue s \<longrightarrow> processQueue fm pf ws s = (s, [])"
    by (simp add: processQueue_skipped)
  have c: "isProcessingQueue s \<longrightarrow>
         processPrintJob fm pf ws s r pn = printAttempt fm pf (ws 0) s r pn"
    by (simp add: processPrintJob_while_processing)
  have d: "isProcessingQueue s \<longrightarrow> printerDetectionTick fm pf True ws s = (s, [])"
    by (simp add: printerDetectionTick_def processQueue_skipped)
  have e: "\<not> isProcessingQueue s \<longrightarrow> \<not> isProcessingQueue (fst (processQueue fm pf ws s))"
    using processQueue_frame [of fm pf ws s] by simp
  have f: "isProcessingQueue s \<longrightarrow> isProcessingQueue (fst (drain_loop fm pf ws k s))"
    using drain_loop_frame [of fm pf ws k s] by simp
  from a b c d e f show ?thesis by blast
qed

theorem one_pass_at_a_time_witness:
  "isProcessingQueue (svc (interleaving 0 [Update [queuedJob 0] None, Trigger, Trigger]))
   \<and> passes (interleaving 0 [Update [queuedJob 0] None, Trigger, Trigger]) = 1
   \<and> isProcessingQueue ((queueOf 2)\<lparr>isProcessingQueue := True\<rparr>)
   \<and> processQueue exampleFormatter examplePlatform (\<lambda>k. exampleWorld [rongta ''online''] True 7)
         ((queueOf 2)\<lparr>isProcessingQueue := True\<rparr>)
       = ((queueOf 2)\<lparr>isProcessingQueue := True\<rparr>, [])
   \<and> \<not> isProcessingQueue (queueOf 2)
   \<and> \<not> isProcessingQueue (fst (processQueue exampleFormatter examplePlatform
                                    (\<lambda>k. exampleWorld [rongta ''online''] True 7) (queueOf 2)))"
proof -
  let ?as = "[Update [queuedJob 0] None, Trigger, Trigger]"
  let ?ws = "\<lambda>k::nat. exampleWorld [rongta ''online''] True 7"
  let ?busy = "(queueOf 2)\<lparr>isProcessingQueue := True\<rparr>"
  have flag: "isProcessingQueue (svc (interleaving 0 ?as))"
    by (simp add: interleaving_def initialService_def)
  have busy: "isProcessingQueue ?busy"
    by simp
  have idle: "\<not> isProcessingQueue (queueOf 2)"
    by (simp add: queueOf_def initialService_def)
  note A = one_pass_at_a_time [of 0 ?as ?busy exampleFormatter examplePlatform ?ws testReceipt None 0]
  note B = one_pass_at_a_time [of 0 ?as "queueOf 2" exampleFormatter examplePlatform ?ws testReceipt None 0]
  have one: "passes (interleaving 0 ?as) = 1"
    using A [THEN conjunct2, THEN conjunct1] flag by simp
  have skip: "processQueue exampleFormatter examplePlatform ?ws ?busy = (?busy, [])"
    using A [THEN conjunct2, THEN conjunct2, THEN conjunct1, THEN mp, OF busy] .
  have cleared: "\<not> isProcessingQueue (fst (processQueue exampleFormatter examplePlatform ?ws
                                            (queueOf 2)))"
    using B [THEN conjunct2, THEN conjunct2, THEN conjunct2, THEN conjunct2, THEN conjunct2,
             THEN conjunct1, THEN mp, OF idle] .
  show ?thesis
    by (intro conjI) (rule flag, rule one, rule busy, rule skip, rule idle, rule cleared)
qed

end
